theory Spec2Isabelle
  imports Main "HOL-Library.Sublist"
begin

section \<open>Strings and JavaScript values\<close>

text \<open>
  The generators of the repository build text with JavaScript template literals. A string is
  modelled as a \<^typ>\<open>string\<close> (a list of 8-bit characters; the two non-ASCII symbols of the
  Telegram template are their UTF-8 bytes). A template literal becomes the concatenation of
  its literal chunks and its interpolated values. The
  escapes of the literals are resolved as JavaScript resolves them: a backslash before
  \<open>$\<close>, a backtick or a backslash yields that character.
\<close>

abbreviation sq :: string where
  "sq \<equiv> [CHR 0x27]"

abbreviation bs :: string where
  "bs \<equiv> [CHR 0x5C]"

abbreviation nl :: char where
  "nl \<equiv> CHR 0x0A"

text \<open>
  An optional property (\<open>field?: string\<close>) is an \<open>option\<close>; \<open>None\<close> is
  \<open>undefined\<close>. \<open>truthy_str\<close> is JavaScript's truthiness of such a value (defined and
  non-empty), \<open>js_str\<close> its conversion inside a template literal.
\<close>

definition truthy_str :: "string option \<Rightarrow> bool" where
  "truthy_str v = (case v of None \<Rightarrow> False | Some s \<Rightarrow> s \<noteq> [])"

definition js_str :: "string option \<Rightarrow> string" where
  "js_str v = (case v of None \<Rightarrow> ''undefined'' | Some s \<Rightarrow> s)"

text \<open>
  Numbers of the configuration (port, instance counts) are modelled as integers;
  \<open>show_num\<close> is their decimal rendering in a template literal and \<open>num_or v d\<close> is the
  expression \<open>v || d\<close> (an absent value and 0 are falsy). JavaScript prints a number
  digit for digit as long as it is a safe integer (\<open>Number.isSafeInteger\<close>: magnitude below
  \<open>2^53\<close>); beyond that it rounds to 17 significant digits and, from \<open>10^21\<close> on,
  uses exponent notation, which \<open>show_num\<close> does not follow. A property that depends on the
  digits of a rendered number therefore assumes the number to be a safe integer.
\<close>

fun digits :: "nat \<Rightarrow> string" where
  "digits n =
     (if n < 10 then [''0123456789'' ! n]
      else digits (n div 10) @ [''0123456789'' ! (n mod 10)])"

declare digits.simps [simp del]

definition show_num :: "int \<Rightarrow> string" where
  "show_num i = (if i < 0 then CHR ''-'' # digits (nat (- i)) else digits (nat i))"

definition isSafeInteger :: "int \<Rightarrow> bool" where
  "isSafeInteger n = (\<bar>n\<bar> \<le> 9007199254740991)"

definition num_or :: "int option \<Rightarrow> int \<Rightarrow> int" where
  "num_or v d = (case v of None \<Rightarrow> d | Some n \<Rightarrow> if n = 0 then d else n)"

text \<open>\<open>split_on c s\<close> is \<open>s.split(c)\<close> for a one-character separator.\<close>

text \<open>
  A multi-line template literal is written as the list of its lines, joined by newlines.
\<close>

fun join_nl :: "string list \<Rightarrow> string" where
  "join_nl [] = []"
| "join_nl [l] = l"
| "join_nl (l # m # ls) = l @ nl # join_nl (m # ls)"

fun split_on :: "char \<Rightarrow> string \<Rightarrow> string list" where
  "split_on c [] = [[]]"
| "split_on c (x # xs) =
     (if x = c then [] # split_on c xs
      else (case split_on c xs of p # ps \<Rightarrow> (x # p) # ps | [] \<Rightarrow> [[x]]))"

definition lines_of :: "string \<Rightarrow> string list" where
  "lines_of s = split_on nl s"

section \<open>The configuration model (config.interface.ts)\<close>

record EnvVariable =
  ev_key :: string
  ev_value :: "string option"
  isSecret :: bool
  description :: string

record ExternalService =
  es_type :: string
  es_name :: string
  es_service :: string
  envVariables :: "EnvVariable list"
  connectionString :: "string option"
  requiresInfrastructure :: bool

record ManagedService =
  ms_type :: string
  ms_service :: string
  ms_tier :: string
  autoProvision :: bool
  existingResourceId :: "string option"

record AWSCredentials =
  accessKeyId :: "string option"
  secretAccessKey :: "string option"
  aws_region :: string
  aws_useOIDC :: bool
  oidcRoleArn :: "string option"

record AzureCredentials =
  subscriptionId :: string
  clientId :: string
  clientSecret :: "string option"
  tenantId :: string
  azure_useOIDC :: bool

record GCPCredentials =
  projectId :: string
  keyFile :: "string option"
  gcp_region :: string
  gcp_useOIDC :: bool

record DOCredentials =
  apiToken :: string
  do_region :: string

datatype Credentials =
    AWS AWSCredentials
  | Azure AzureCredentials
  | GCP GCPCredentials
  | DO DOCredentials

record DeploymentConfig =
  tier :: string
  autoScaling :: bool
  minInstances :: "int option"
  maxInstances :: "int option"
  healthCheckPath :: string
  port :: int
  useLoadBalancer :: bool
  loadBalancerUrl :: "string option"
  deploymentStrategy :: string
  environmentVariables :: "(string \<times> string) list"

record CloudConfig =
  provider :: string
  credentials :: Credentials
  region :: string
  instanceType :: string
  deploymentConfig :: DeploymentConfig
  managedServices :: "ManagedService list"

record ProjectConfig =
  projectName :: string
  projectType :: string
  language :: string
  repository :: string
  branch :: string
  hasDockerfile :: bool
  dockerfilePath :: "string option"
  runTests :: bool
  testCommand :: "string option"
  buildCommand :: "string option"
  requiresEnvFile :: bool
  envFilePath :: "string option"
  externalServices :: "ExternalService list"

record NotificationPlatform =
  np_type :: string
  np_webhook :: "string option"
  np_apiKey :: "string option"

record NotificationConfig =
  nc_email :: string
  nc_platforms :: "NotificationPlatform list"
  nc_webhookUrls :: "(string \<times> string) list option"

record JenkinsConfig =
  agentLabel :: string
  timeout :: int
  retryCount :: int
  jenkins_environmentVariables :: "(string \<times> string) list"

record CICDConfig =
  project :: ProjectConfig
  cloud :: CloudConfig
  notifications :: NotificationConfig
  jenkinsConfig :: JenkinsConfig

text \<open>
  The services read the credential variant through \<open>credentials as any\<close> and probe the
  properties \<open>useOIDC\<close> and \<open>oidcRoleArn\<close>; a variant without the property yields
  \<open>undefined\<close>, which is falsy.
\<close>

fun useOIDC_of :: "Credentials \<Rightarrow> bool" where
  "useOIDC_of (AWS c) = aws_useOIDC c"
| "useOIDC_of (Azure c) = azure_useOIDC c"
| "useOIDC_of (GCP c) = gcp_useOIDC c"
| "useOIDC_of (DO c) = False"

fun oidcRoleArn_of :: "Credentials \<Rightarrow> string option" where
  "oidcRoleArn_of (AWS c) = oidcRoleArn c"
| "oidcRoleArn_of (Azure c) = None"
| "oidcRoleArn_of (GCP c) = None"
| "oidcRoleArn_of (DO c) = None"

datatype error = Error string

section \<open>CloudProviderService (cloud-provider.service.ts)\<close>

definition generateDeployedUrlExport :: "DeploymentConfig \<Rightarrow> string \<Rightarrow> string" where
\<open>generateDeployedUrlExport dc defaultUrlScript =
  (if useLoadBalancer dc \<and> truthy_str (loadBalancerUrl dc) then
     join_nl
      ['''',
       ''    export DEPLOYED_URL="'' @ js_str (loadBalancerUrl dc) @ ''"'',
       ''    echo "DEPLOYED_URL=$DEPLOYED_URL" >> deployment.env'',
       ''    echo "Deployment completed. Reachable at Load Balancer: $DEPLOYED_URL"'']
   else
     join_nl
      ['''',
       ''    '' @ defaultUrlScript,
       ''    echo "DEPLOYED_URL=$DEPLOYED_URL" >> deployment.env'',
       ''    echo "Deployment completed. Reachable at: $DEPLOYED_URL"''])\<close>

text \<open>The local variable \<open>authLogic\<close> of \<open>generateAWSDeploymentScript\<close>.\<close>

definition aws_authLogic :: "CloudConfig \<Rightarrow> string" where
\<open>aws_authLogic config =
  (if useOIDC_of (credentials config) \<and> truthy_str (oidcRoleArn_of (credentials config)) then
     join_nl
      ['''',
       ''    # AWS OIDC Authentication'',
       ''    echo "Authenticating via OIDC..."'',
       ''    export $(printf "AWS_ACCESS_KEY_ID=%s AWS_SECRET_ACCESS_KEY=%s AWS_SESSION_TOKEN=%s" '' @ bs,
       ''    $(aws sts assume-role-with-web-identity '' @ bs,
       ''    --role-arn '' @ js_str (oidcRoleArn_of (credentials config)) @ '' '' @ bs,
       ''    --role-session-name JenkinsSession '' @ bs,
       ''    --web-identity-token ${AWS_WEB_IDENTITY_TOKEN} '' @ bs,
       ''    --query "Credentials.[AccessKeyId,SecretAccessKey,SessionToken]" '' @ bs,
       ''    --output text))'',
       ''    aws configure set region '' @ region config]
   else
     join_nl
      ['''',
       ''    #AWS Deployment Configuration'',
       ''    aws configure set aws_access_key_id ${AWS_ACCESS_KEY_ID}'',
       ''    aws configure set aws_secret_access_key ${AWS_SECRET_ACCESS_KEY}'',
       ''    aws configure set region '' @ region config])\<close>

text \<open>The second argument of the call of \<open>generateDeployedUrlExport\<close> in \<open>generateAWSDeploymentScript\<close>.\<close>

definition aws_defaultUrlScript :: "CloudConfig \<Rightarrow> string \<Rightarrow> string" where
\<open>aws_defaultUrlScript config dockerImageName =
     join_nl
      [''TASK_ARN=$(aws ecs list-tasks --cluster '' @ dockerImageName @ ''-cluster --service-name '' @ dockerImageName @ ''-service --query '' @ sq @ ''taskArns[0]'' @ sq @ '' --output text)'',
       ''    ENI_ID=$(aws ecs describe-tasks --cluster '' @ dockerImageName @ ''-cluster --tasks $TASK_ARN --query '' @ sq @ ''tasks[0].attachments[0].details[?name==`networkInterfaceId`].value'' @ sq @ '' --output text)'',
       ''    PUBLIC_IP=$(aws ec2 describe-network-interfaces --network-interface-ids $ENI_ID --query '' @ sq @ ''NetworkInterfaces[0].Association.PublicIp'' @ sq @ '' --output text)'',
       ''    export DEPLOYED_URL="http://$PUBLIC_IP:'' @ show_num (port (deploymentConfig config)) @ ''"'']\<close>

definition generateAWSDeploymentScript :: "CloudConfig \<Rightarrow> string \<Rightarrow> string" where
\<open>generateAWSDeploymentScript config dockerImageName =
     join_nl
      ['''',
       ''    '' @ aws_authLogic config,
       '''',
       ''    #Create/Update ECS Cluster'',
       ''    aws ecs create-cluster --cluster-name '' @ dockerImageName @ ''-cluster || true'',
       '''',
       ''    #Register Task Definition'',
       ''    cat >task-definition.json << EOF'',
       ''    {'',
       ''        "family": "'' @ dockerImageName @ ''",'',
       ''        "networkMode": "awsvpc",'',
       ''        "requiresCompatibility": ["FARGATE"],'',
       ''        "cpu": "256",'',
       ''        "memory": "512",'',
       ''        "containerDefinitions": ['',
       ''        {'',
       ''            "name": "'' @ dockerImageName @ ''",'',
       ''            "image": "${DOCKER_IMAGE}",'',
       ''            "portMappings": ['',
       ''                {'',
       ''                    "containerPort": '' @ show_num (port (deploymentConfig config)) @ '','',
       ''                    "protocol": "tcp"'',
       ''                }'',
       ''            ],'',
       ''            "logConfiguration": {'',
       ''                "logDriver": "awslogs",'',
       ''                "options": {'',
       ''                    "awslogs-group": "/ecs/'' @ dockerImageName @ ''",'',
       ''                    "awslogs-region": "'' @ region config @ ''",'',
       ''                    "awslogs-stream-prefix": "ecs"'',
       ''                }'',
       ''            }'',
       ''        }],'',
       ''        "healthCheck": {'',
       ''            "command": ["CMD-SHELL", "curl -f http://localhost:'' @ show_num (port (deploymentConfig config)) @ healthCheckPath (deploymentConfig config) @ '' || exit 1"],'',
       ''            "interval": 30,'',
       ''            "timeout": 5,'',
       ''            "retries": 3'',
       ''        }'',
       ''    }'',
       ''    EOF'',
       '''',
       ''    aws ecs register-task-definition --cli-input-json file://task-definition.json'',
       '''',
       ''    # Check if ECS service exists'',
       ''    SERVICE_EXISTS=$(aws ecs describe-services --cluster '' @ dockerImageName @ ''-cluster --services '' @ dockerImageName @ ''-service --query '' @ sq @ ''services[0].status'' @ sq @ '' --output text || echo "MISSING")'',
       '''',
       ''    if [ "$SERVICE_EXISTS" != "ACTIVE" ]; then'',
       ''        echo "Creating new ECS service..."'',
       ''        aws ecs create-service '' @ bs,
       ''            --cluster '' @ dockerImageName @ ''-cluster '' @ bs,
       ''            --service-name '' @ dockerImageName @ ''-service '' @ bs,
       ''            --task-definition '' @ dockerImageName @ '' '' @ bs,
       ''            --desired-count '' @ show_num (num_or (minInstances (deploymentConfig config)) 1) @ '' '' @ bs,
       ''            --launch-type FARGATE '' @ bs,
       ''            --network-configuration "awsvpcConfiguration={subnets=[${SUBNET_IDS}], securityGroups=[${SECURITY_GROUP_IDS}], assignPublicIp=ENABLED}"'',
       ''    else'',
       ''        echo "Updating existing ECS service with '' @ deploymentStrategy (deploymentConfig config) @ '' strategy..."'',
       ''        if [ "'' @ deploymentStrategy (deploymentConfig config) @ ''" == "blue-green" ]; then'',
       ''            echo "Performing Blue-Green deployment..."'',
       ''            # Simulating blue-green by creating/updating a '' @ sq @ ''green'' @ sq @ '' version'',
       ''            aws ecs update-service --cluster '' @ dockerImageName @ ''-cluster --service '' @ dockerImageName @ ''-service --task-definition '' @ dockerImageName @ '' --force-new-deployment'',
       ''        elif [ "'' @ deploymentStrategy (deploymentConfig config) @ ''" == "canary" ]; then'',
       ''            echo "Performing Canary deployment (10% traffic)..."'',
       ''            aws ecs update-service --cluster '' @ dockerImageName @ ''-cluster --service '' @ dockerImageName @ ''-service --task-definition '' @ dockerImageName @ '' --desired-count $(( '' @ show_num (num_or (minInstances (deploymentConfig config)) 1) @ '' + 1 ))'',
       ''        else'',
       ''            aws ecs update-service --cluster '' @ dockerImageName @ ''-cluster --service '' @ dockerImageName @ ''-service --task-definition '' @ dockerImageName @ '' --force-new-deployment'',
       ''        fi'',
       ''    fi'',
       '''',
       ''    '' @ generateDeployedUrlExport (deploymentConfig config)
          (aws_defaultUrlScript config dockerImageName),
       ''    '']\<close>

text \<open>The local variable \<open>authLogic\<close> of \<open>generateAzureDeploymentScript\<close>.\<close>

definition azure_authLogic :: "CloudConfig \<Rightarrow> string" where
\<open>azure_authLogic config =
  (if useOIDC_of (credentials config) then
     join_nl
      ['''',
       ''    # Azure OIDC Authentication'',
       ''    echo "Authenticating via OIDC..."'',
       ''    az login --service-principal '' @ bs,
       ''        -u ${AZURE_CLIENT_ID} '' @ bs,
       ''        -t ${AZURE_TENANT_ID} '' @ bs,
       ''        --federated-token ${AZURE_FEDERATED_TOKEN}'']
   else
     join_nl
      ['''',
       ''    # Azure Deployment Configuration'',
       ''    az login --service-principal '' @ bs,
       ''        -u ${AZURE_CLIENT_ID} '' @ bs,
       ''        -p ${AZURE_CLIENT_SECRET} '' @ bs,
       ''        -t ${AZURE_TENANT_ID}''])\<close>

text \<open>The second argument of the call of \<open>generateDeployedUrlExport\<close> in \<open>generateAzureDeploymentScript\<close>.\<close>

definition azure_defaultUrlScript :: "CloudConfig \<Rightarrow> string \<Rightarrow> string" where
\<open>azure_defaultUrlScript config dockerImageName =
     join_nl
      [''export DEPLOYED_URL="http://'' @ dockerImageName @ ''.${AZURE_REGION}.azurecontainer.io:'' @ show_num (port (deploymentConfig config)) @ ''"'']\<close>

definition generateAzureDeploymentScript :: "CloudConfig \<Rightarrow> string \<Rightarrow> string" where
\<open>generateAzureDeploymentScript config dockerImageName =
     join_nl
      ['''',
       ''    '' @ azure_authLogic config,
       ''    '',
       ''    az account set --subscription ${AZURE_SUBSCRIPTION_ID}'',
       '''',
       ''    # Create Resource Group'',
       ''    az group create --name ${RESOURCE_GROUP_NAME} --location ${REGION}'',
       ''    '',
       ''    # Create Container Instance'',
       ''    az container create '' @ bs,
       ''        --resource-group ${RESOURCE_GROUP} '' @ bs,
       ''        --name '' @ dockerImageName @ '' '' @ bs,
       ''        --image ${DOCKER_IMAGE} '' @ bs,
       ''        --cpu 1 '' @ bs,
       ''        --memory 1.5 '' @ bs,
       ''        --registry-login-server ${ACR_LOGIN_SERVER} '' @ bs,
       ''        --registry-username ${ACR_USERNAME} '' @ bs,
       ''        --registry-password ${ACR_PASSWORD} '' @ bs,
       ''        --dns-name-label '' @ dockerImageName @ '' '' @ bs,
       ''        --ports '' @ show_num (port (deploymentConfig config)) @ '' '' @ bs,
       ''        --environment-variables NODE_ENV=production '' @ bs,
       ''        --restart-policy Always'',
       '''',
       ''    '' @ generateDeployedUrlExport (deploymentConfig config)
          (azure_defaultUrlScript config dockerImageName),
       ''    '']\<close>

text \<open>The local variable \<open>authLogic\<close> of \<open>generateGCPDeploymentScript\<close>.\<close>

definition gcp_authLogic :: "CloudConfig \<Rightarrow> string" where
\<open>gcp_authLogic config =
  (if useOIDC_of (credentials config) then
     join_nl
      ['''',
       ''    # GCP OIDC Authentication'',
       ''    echo "Authenticating via OIDC..."'',
       ''    echo ${GCP_OIDC_TOKEN} > oidc_token.txt'',
       ''    gcloud auth login --cred-file=oidc_token.txt'',
       ''    gcloud config set project ${GCP_PROJECT_ID}'',
       ''    gcloud config set compute/region '' @ region config]
   else
     join_nl
      ['''',
       ''    # GCP Deployment Configuration'',
       ''    gcloud auth activate-service-account --key-file=${GCP_KEY_FILE}'',
       ''    gcloud config set project ${GCP_PROJECT_ID}'',
       ''    gcloud config set compute/region '' @ region config])\<close>

text \<open>The second argument of the call of \<open>generateDeployedUrlExport\<close> in \<open>generateGCPDeploymentScript\<close>.\<close>

definition gcp_defaultUrlScript :: "CloudConfig \<Rightarrow> string \<Rightarrow> string" where
\<open>gcp_defaultUrlScript config dockerImageName =
     join_nl
      [''export DEPLOYED_URL=$(cat gcp_url.txt)'']\<close>

definition generateGCPDeploymentScript :: "CloudConfig \<Rightarrow> string \<Rightarrow> string" where
\<open>generateGCPDeploymentScript config dockerImageName =
     join_nl
      ['''',
       ''    '' @ gcp_authLogic config,
       '''',
       ''    # Deploy to Cloud Run'',
       ''    gcloud run deploy '' @ dockerImageName @ '' '' @ bs,
       ''        --image ${DOCKER_IMAGE} '' @ bs,
       ''        --platform managed '' @ bs,
       ''        --port '' @ show_num (port (deploymentConfig config)) @ '' '' @ bs,
       ''        --memory 512Mi '' @ bs,
       ''        --cpu 1 '' @ bs,
       ''        --min-instances '' @ show_num (num_or (minInstances (deploymentConfig config)) 0) @ '' '' @ bs,
       ''        --max-instances '' @ show_num (num_or (maxInstances (deploymentConfig config)) 1) @ '' '' @ bs,
       ''        --set-env-vars NODE_ENV=production '' @ bs,
       ''        --region '' @ region config @ '' '' @ bs,
       ''        --format='' @ sq @ ''value(status.url)'' @ sq @ '' > gcp_url.txt'',
       ''    '',
       ''    '' @ generateDeployedUrlExport (deploymentConfig config)
          (gcp_defaultUrlScript config dockerImageName),
       ''    '']\<close>

text \<open>The second argument of the call of \<open>generateDeployedUrlExport\<close> in \<open>generateDigitalOceanDeploymentScript\<close>.\<close>

definition do_defaultUrlScript :: "CloudConfig \<Rightarrow> string \<Rightarrow> string" where
\<open>do_defaultUrlScript config dockerImageName =
     join_nl
      [''export DEPLOYED_URL=$(doctl apps get $APP_ID --format DefaultIngress --no-header)'']\<close>

definition generateDigitalOceanDeploymentScript :: "CloudConfig \<Rightarrow> string \<Rightarrow> string" where
\<open>generateDigitalOceanDeploymentScript config dockerImageName =
     join_nl
      ['''',
       ''    # DigitalOcean Deployment Configuration'',
       ''    doctl auth init --access-token ${DO_API_TOKEN}'',
       '''',
       ''    #Create App Platform APP'',
       ''    cat > app-spec.yaml << EOF'',
       ''    name: '' @ dockerImageName,
       ''    region: '' @ region config,
       ''    services:'',
       ''        - name: '' @ dockerImageName,
       ''          image: '',
       ''            registry-type: DOCKER_HUB'',
       ''            repository: ${DOCKER_IMAGE}'',
       ''          http_port: '' @ show_num (port (deploymentConfig config)),
       ''          instance_count: '' @ show_num (num_or (minInstances (deploymentConfig config)) 1),
       ''          instance_size_slug: basic-xxs'',
       ''          health-check:'',
       ''            http_path: '' @ healthCheckPath (deploymentConfig config),
       ''          routes:'',
       ''            - path: /'',
       '''',
       ''    EOF'',
       '''',
       ''    # Create or update app'',
       ''    APP_ID=$(doctl apps list --format ID --no-header | head -n 1)'',
       '''',
       ''    if [ -z "$APP_ID" ]; then'',
       ''        doctl apps create --spec app-spec.yaml'',
       ''    else'',
       ''        doctl apps update $APP_ID --spec app-spec.yaml'',
       ''    fi'',
       '''',
       ''    '' @ generateDeployedUrlExport (deploymentConfig config)
          (do_defaultUrlScript config dockerImageName),
       ''    '']\<close>

text \<open>
  The dispatcher switches on the provider tag, a string at run time, and throws for every
  other tag; the thrown \<open>Error\<close> is the left summand.
\<close>

definition generateDeploymentScript :: "CloudConfig \<Rightarrow> string \<Rightarrow> error + string" where
  "generateDeploymentScript config dockerImageName =
    (if provider config = ''aws'' then Inr (generateAWSDeploymentScript config dockerImageName)
     else if provider config = ''azure'' then Inr (generateAzureDeploymentScript config dockerImageName)
     else if provider config = ''gcp'' then Inr (generateGCPDeploymentScript config dockerImageName)
     else if provider config = ''digitalocean'' then
       Inr (generateDigitalOceanDeploymentScript config dockerImageName)
     else Inl (Error (''Unsupported cloud provider: '' @ provider config)))"

section \<open>IaCService (iac.service.ts)\<close>

definition generateAWSTerraform :: "CloudConfig \<Rightarrow> string \<Rightarrow> string" where
\<open>generateAWSTerraform config dockerImageName =
     join_nl
      ['''',
       ''provider "aws" {'',
       ''  region = "'' @ region config @ ''"'',
       ''}'',
       '''',
       ''resource "aws_ecs_cluster" "main" {'',
       ''  name = "'' @ dockerImageName @ ''-cluster"'',
       ''}'',
       '''',
       ''resource "aws_iam_role" "ecs_task_execution_role" {'',
       ''  name = "'' @ dockerImageName @ ''-task-exec-role"'',
       '''',
       ''  assume_role_policy = jsonencode({'',
       ''    Version = "2012-10-17"'',
       ''    Statement = ['',
       ''      {'',
       ''        Action = "sts:AssumeRole"'',
       ''        Effect = "Allow"'',
       ''        Principal = {'',
       ''          Service = "ecs-tasks.amazonaws.com"'',
       ''        }'',
       ''      }'',
       ''    ]'',
       ''  })'',
       ''}'',
       '''',
       ''resource "aws_iam_role_policy_attachment" "ecs_task_execution_role_policy" {'',
       ''  role       = aws_iam_role.ecs_task_execution_role.name'',
       ''  policy_arn = "arn:aws:iam::aws:policy/service-role/AmazonECSTaskExecutionRolePolicy"'',
       ''}'',
       '''']\<close>

definition generateAzureTerraform :: "CloudConfig \<Rightarrow> string \<Rightarrow> string" where
\<open>generateAzureTerraform config dockerImageName =
     join_nl
      ['''',
       ''provider "azurerm" {'',
       ''  features {}'',
       ''}'',
       '''',
       ''resource "azurerm_resource_group" "main" {'',
       ''  name     = "${var.resource_group_name}"'',
       ''  location = "'' @ region config @ ''"'',
       ''}'',
       '''',
       ''resource "azurerm_container_group" "main" {'',
       ''  name                = "'' @ dockerImageName @ ''"'',
       ''  location            = azurerm_resource_group.main.location'',
       ''  resource_group_name = azurerm_resource_group.main.name'',
       ''  ip_address_type     = "Public"'',
       ''  dns_name_label      = "'' @ dockerImageName @ ''"'',
       ''  os_type             = "Linux"'',
       '''',
       ''  container {'',
       ''    name   = "'' @ dockerImageName @ ''"'',
       ''    image  = "${var.docker_image}"'',
       ''    cpu    = "1"'',
       ''    memory = "1.5"'',
       '''',
       ''    ports {'',
       ''      port     = '' @ show_num (port (deploymentConfig config)),
       ''      protocol = "TCP"'',
       ''    }'',
       ''  }'',
       ''}'',
       '''']\<close>

definition generateGCPTerraform :: "CloudConfig \<Rightarrow> string \<Rightarrow> string" where
\<open>generateGCPTerraform config dockerImageName =
     join_nl
      ['''',
       ''provider "google" {'',
       ''  project = "${var.gcp_project_id}"'',
       ''  region  = "'' @ region config @ ''"'',
       ''}'',
       '''',
       ''resource "google_cloud_run_service" "main" {'',
       ''  name     = "'' @ dockerImageName @ ''"'',
       ''  location = "'' @ region config @ ''"'',
       '''',
       ''  template {'',
       ''    spec {'',
       ''      containers {'',
       ''        image = "${var.docker_image}"'',
       ''        ports {'',
       ''          container_port = '' @ show_num (port (deploymentConfig config)),
       ''        }'',
       ''      }'',
       ''    }'',
       ''  }'',
       '''',
       ''  traffic {'',
       ''    percent         = 100'',
       ''    latest_revision = true'',
       ''  }'',
       ''}'',
       '''',
       ''resource "google_cloud_run_service_iam_member" "public_access" {'',
       ''  service  = google_cloud_run_service.main.name'',
       ''  location = google_cloud_run_service.main.location'',
       ''  role     = "roles/run.invoker"'',
       ''  member   = "allUsers"'',
       ''}'',
       '''']\<close>

definition generateDOTerraform :: "CloudConfig \<Rightarrow> string \<Rightarrow> string" where
\<open>generateDOTerraform config dockerImageName =
     join_nl
      ['''',
       ''provider "digitalocean" {'',
       ''  token = "${var.do_token}"'',
       ''}'',
       '''',
       ''resource "digitalocean_app" "main" {'',
       ''  spec {'',
       ''    name   = "'' @ dockerImageName @ ''"'',
       ''    region = "'' @ region config @ ''"'',
       '''',
       ''    service {'',
       ''      name               = "'' @ dockerImageName @ ''"'',
       ''      instance_count     = '' @ show_num (num_or (minInstances (deploymentConfig config)) 1),
       ''      instance_size_slug = "basic-xxs"'',
       '''',
       ''      image {'',
       ''        registry_type = "DOCKER_HUB"'',
       ''        repository    = "${var.docker_image}"'',
       ''      }'',
       '''',
       ''      http_port = '' @ show_num (port (deploymentConfig config)),
       '''',
       ''      health_check {'',
       ''        http_path = "'' @ healthCheckPath (deploymentConfig config) @ ''"'',
       ''      }'',
       ''    }'',
       ''  }'',
       ''}'',
       '''']\<close>

text \<open>
  This dispatcher has the same four cases, and its \<open>default\<close> case returns the empty
  string: it never throws.
\<close>

definition generateTerraformConfig :: "CloudConfig \<Rightarrow> string \<Rightarrow> string" where
  "generateTerraformConfig config dockerImageName =
    (if provider config = ''aws'' then generateAWSTerraform config dockerImageName
     else if provider config = ''azure'' then generateAzureTerraform config dockerImageName
     else if provider config = ''gcp'' then generateGCPTerraform config dockerImageName
     else if provider config = ''digitalocean'' then generateDOTerraform config dockerImageName
     else [])"

section \<open>DockerComposeService (docker-compose.service.ts)\<close>

text \<open>
  \<open>toLowerCase\<close> and the regular expression \<open>/\s+/g\<close> are modelled on ASCII: the letters
  \<open>A\<close> to \<open>Z\<close> are lowered, and the whitespace characters are tab, line feed, vertical tab,
  form feed, carriage return and space. Bytes above 127 are left as they are, whereas
  JavaScript also lowers letters outside ASCII and \<open>\s\<close> also matches the Unicode spaces:
  the model is the code on the strings that are \<open>ascii\<close>, and a property of derived service
  names assumes the names to be so. For the lookup of \<open>getServiceConfig\<close> nothing is lost:
  an identifier with a character outside ASCII is not lowered to one of the six
  identifiers (the only such character that JavaScript lowers to ASCII text alone is the
  Kelvin sign, to \<open>k\<close>, which occurs in none of them), so that it is outside the table in
  the code as in the model.
\<close>

definition ascii :: "string \<Rightarrow> bool" where
  "ascii s = list_all (\<lambda>c. (of_char c :: nat) < 128) s"

definition lower_char :: "char \<Rightarrow> char" where
  "lower_char c =
     (if 65 \<le> (of_char c :: nat) \<and> (of_char c :: nat) \<le> 90
      then char_of ((of_char c :: nat) + 32) else c)"

definition toLowerCase :: "string \<Rightarrow> string" where
  "toLowerCase s = map lower_char s"

definition is_space :: "char \<Rightarrow> bool" where
  "is_space c = ((of_char c :: nat) \<in> {9, 10, 11, 12, 13, 32})"

text \<open>\<open>replace_spaces s\<close> is \<open>s.replace(/\s+/g, '-')\<close>.\<close>

function replace_spaces :: "string \<Rightarrow> string" where
  "replace_spaces [] = []"
| "replace_spaces (c # cs) =
     (if is_space c then CHR ''-'' # replace_spaces (dropWhile is_space cs)
      else c # replace_spaces cs)"
  by pat_completeness auto
termination
  by (relation "measure length") (auto simp: length_dropWhile_le less_Suc_eq_le)

text \<open>
  The values the service builds: strings, arrays of strings and objects. A JavaScript
  object is the list of its own properties in insertion order; \<open>obj_set\<close> defines the own
  property \<open>k\<close> (an existing key keeps its place), and \<open>entries\<close> is the order of
  \<open>Object.entries\<close>: the keys that are array indices first, in ascending numeric order,
  then the other keys in insertion order. \<open>js_assign\<close> is the assignment \<open>obj[k] = v\<close> of an
  object \<open>v\<close> to a property of a plain object: the key \<open>__proto__\<close> is the accessor
  inherited from \<open>Object.prototype\<close>, so that this assignment replaces the prototype and
  defines no own property; every other key becomes an own property.
\<close>

datatype yval = YStr string | YArr "string list" | YObj "(string \<times> yval) list"

fun obj_set :: "(string \<times> 'a) list \<Rightarrow> string \<Rightarrow> 'a \<Rightarrow> (string \<times> 'a) list" where
  "obj_set [] k v = [(k, v)]"
| "obj_set ((k', v') # kvs) k v =
     (if k' = k then (k, v) # kvs else (k', v') # obj_set kvs k v)"

definition js_assign :: "(string \<times> 'a) list \<Rightarrow> string \<Rightarrow> 'a \<Rightarrow> (string \<times> 'a) list" where
  "js_assign obj k v = (if k = ''__proto__'' then obj else obj_set obj k v)"

definition is_digit :: "char \<Rightarrow> bool" where
  "is_digit c = (48 \<le> (of_char c :: nat) \<and> (of_char c :: nat) \<le> 57)"

definition digits_val :: "string \<Rightarrow> int" where
  "digits_val s = foldl (\<lambda>acc c. 10 * acc + ((of_char c :: int) - 48)) 0 s"

definition is_array_index :: "string \<Rightarrow> bool" where
  "is_array_index k =
     (k \<noteq> [] \<and> list_all is_digit k \<and> (k = ''0'' \<or> hd k \<noteq> CHR ''0'') \<and>
      digits_val k \<le> 4294967294)"

definition entries :: "(string \<times> 'a) list \<Rightarrow> (string \<times> 'a) list" where
  "entries obj =
     sort_key (\<lambda>kv. digits_val (fst kv)) (filter (\<lambda>kv. is_array_index (fst kv)) obj) @
     filter (\<lambda>kv. \<not> is_array_index (fst kv)) obj"

definition getServiceName :: "ExternalService \<Rightarrow> string" where
  "getServiceName service = replace_spaces (toLowerCase (es_name service))"

definition getServiceConfig :: "ExternalService \<Rightarrow> yval" where
  "getServiceConfig service =
    (if toLowerCase (es_service service) = ''postgresql'' then
       YObj [(''image'', YStr ''postgres:latest''),
             (''environment'', YObj [(''POSTGRES_USER'', YStr ''user''),
                                     (''POSTGRES_PASSWORD'', YStr ''password''),
                                     (''POSTGRES_DB'', YStr ''app_db'')]),
             (''ports'', YArr [''5432:5432''])]
     else if toLowerCase (es_service service) = ''mongodb'' then
       YObj [(''image'', YStr ''mongo:latest''),
             (''ports'', YArr [''27017:27017''])]
     else if toLowerCase (es_service service) = ''redis'' then
       YObj [(''image'', YStr ''redis:latest''),
             (''ports'', YArr [''6379:6379''])]
     else if toLowerCase (es_service service) = ''mysql'' \<or>
             toLowerCase (es_service service) = ''mariadb'' then
       YObj [(''image'', YStr (if toLowerCase (es_service service) = ''mysql''
                               then ''mysql:latest'' else ''mariadb:latest'')),
             (''environment'', YObj [(''MYSQL_ROOT_PASSWORD'', YStr ''password''),
                                     (''MYSQL_DATABASE'', YStr ''app_db'')]),
             (''ports'', YArr [''3306:3306''])]
     else if toLowerCase (es_service service) = ''rabbitmq'' then
       YObj [(''image'', YStr ''rabbitmq:3-management''),
             (''ports'', YArr [''5672:5672'', ''15672:15672''])]
     else
       YObj [(''image'', YStr ''alpine:latest''),
             (''command'', YStr ''sleep infinity'')])"

text \<open>
  \<open>yamlify\<close>: a nested object is written under its key with two more spaces of
  indentation, an array one item per line after a dash, a string in double quotes.
\<close>

function yamlify :: "(string \<times> yval) list \<Rightarrow> nat \<Rightarrow> string" where
\<open>yamlify obj indent =
   concat (map (\<lambda>kv.
      (case snd kv of
         YObj v \<Rightarrow> replicate indent CHR '' '' @ fst kv @ '':'' @ [nl] @ yamlify v (indent + 2)
       | YArr items \<Rightarrow>
           replicate indent CHR '' '' @ fst kv @ '':'' @ [nl] @
           concat (map (\<lambda>item. replicate indent CHR '' '' @ ''  - "'' @ item @ ''"'' @ [nl]) items)
       | YStr s \<Rightarrow> replicate indent CHR '' '' @ fst kv @ '': "'' @ s @ ''"'' @ [nl]))
     (entries obj))\<close>
  by pat_completeness auto
termination
proof (relation "measure (\<lambda>(obj, indent). size_list (size_prod (\<lambda>_. 0) size) obj)")
  show "wf (measure (\<lambda>(obj, indent). size_list (size_prod (\<lambda>_. 0) size) obj))"
    by simp
next
  fix obj :: "(string \<times> yval) list" and indent :: nat and kv v
  assume "kv \<in> set (entries obj)" and s: "snd kv = YObj v"
  then have m: "kv \<in> set obj"
    by (auto simp: entries_def)
  obtain k where kv: "kv = (k, YObj v)"
    using s by (cases kv) auto
  have "size_prod (\<lambda>_. 0) size kv \<le> size_list (size_prod (\<lambda>_. 0) size) obj"
    using m by (simp add: size_list_estimation')
  then show "((v, indent + 2), (obj, indent))
      \<in> measure (\<lambda>(obj, indent). size_list (size_prod (\<lambda>_. 0) size) obj)"
    by (simp add: kv)
qed

text \<open>The local object \<open>services\<close> of \<open>generateDockerCompose\<close>, after the loop.\<close>

definition compose_services :: "CICDConfig \<Rightarrow> (string \<times> yval) list" where
  "compose_services config =
     foldl (\<lambda>services service.
              if requiresInfrastructure service
              then js_assign services (getServiceName service) (getServiceConfig service)
              else services)
       (obj_set [] ''app''
          (YObj [(''build'', YStr ''.''),
                 (''ports'', YArr [show_num (port (deploymentConfig (cloud config))) @ '':'' @
                                   show_num (port (deploymentConfig (cloud config)))]),
                 (''env_file'', YArr [''.env'']),
                 (''depends_on'',
                    YArr (map getServiceName
                            (filter requiresInfrastructure (externalServices (project config)))))]))
       (externalServices (project config))"

definition generateDockerCompose :: "CICDConfig \<Rightarrow> string" where
  "generateDockerCompose config =
     yamlify [(''version'', YStr ''3.8''), (''services'', YObj (compose_services config))] 0"

section \<open>NotificationService (notification.service.ts)\<close>

definition generateEmailNotification :: "string \<Rightarrow> string" where
\<open>generateEmailNotification email =
     join_nl
      ['''',
       ''    def sendEmailNotification(status, stageName='' @ sq @ sq @ '') {'',
       ''        def subject = "[${status}] Jenkins Pipeline - ${env.JOB_NAME} #${env.BUILD_NUMBER}"'',
       ''        def body = """'',
       ''        <html>'',
       ''        <body>'',
       ''            <h2>Jenkins Pipeline Notification</h2>'',
       ''            <p><strong>Job:</strong> ${env.JOB_NAME}</p>'',
       ''            <p><strong>Build Number:</strong> ${env.BUILD_NUMBER}</p>'',
       ''            <p><strong>Status:</strong> <span style="color: ${status == '' @ sq @ ''SUCCESS'' @ sq @ '' ? '' @ sq @ ''green'' @ sq @ '' : '' @ sq @ ''red'' @ sq @ ''};">${status}</span></p>'',
       ''            ${stageName ? "<p><strong>Stage:</strong> ${stageName}</p>" : ""}'',
       ''            <p><strong>Duration:</strong> ${currentBuild.durationString}</p>'',
       ''            <p><strong>Build URL:</strong> <a href="${env.BUILD_URL}">${env.BUILD_URL}</a></p>'',
       ''            <p><strong>Console Output:</strong> <a href="${env.BUILD_URL}console">${env.BUILD_URL}console</a></p>'',
       ''            <hr>'',
       ''            <p><strong>Changes:</strong></p>'',
       ''            <pre>${currentBuild.changeSets.collect { it.items.collect { "${it.author} - ${it.msg}" }.join('' @ sq @ bs @ ''n'' @ sq @ '') }.join('' @ sq @ bs @ ''n'' @ sq @ '')}</pre>'',
       ''        </body>'',
       ''        </html>'',
       ''        """'',
       '''',
       ''        emailext('',
       ''            subject: subject,'',
       ''            body: body,'',
       ''            to: '' @ sq @ email @ sq @ '','',
       ''            mimeType: '' @ sq @ ''text/html'' @ sq @ '','',
       ''            attachLog: status != '' @ sq @ ''SUCCESS'' @ sq,
       ''        )'',
       ''    }'',
       ''    '']\<close>

definition generateSlackNotification :: "string \<Rightarrow> string" where
\<open>generateSlackNotification webhook =
     join_nl
      ['''',
       ''    def sendSlackNotification(status, stageName = '' @ sq @ sq @ ''){'',
       ''        def color = status == '' @ sq @ ''SUCCESS'' @ sq @ '' ? '' @ sq @ ''good'' @ sq @ '' : '' @ sq @ ''danger'' @ sq,
       ''        def message = ['',
       ''            text: "Jenkins Pipeline ${status}",'',
       ''            attachments:[['',
       ''                color: color,'',
       ''                title: "Jenkins Pipeline ${status}",'',
       ''                title_link: "${env.BUILD_URL}",'',
       ''                fields: ['',
       ''                    [title: "Status", value: status, short: true],'',
       ''                    [title: "Branch", value: "${env.BRANCH_NAME}", short: true],'',
       ''                    [title: "Duration", value: "${currentBuild.durationString}", short: true],'',
       ''                    ${stageName ? "[title: '' @ sq @ ''Stage'' @ sq @ '', value: '' @ sq @ ''${stageName}'' @ sq @ '', short: true]," : ""}'',
       ''                ],'',
       ''                footer: "Jenkins",'',
       ''                ts: (System.currentTimeMillis() / 1000).toLong()'',
       ''            ]]'',
       ''        ]'',
       ''        sh """'',
       ''            curl -X POST '' @ sq @ webhook @ sq @ '' '' @ bs,
       ''            -H '' @ sq @ ''Content-Type: application/json'' @ sq @ '' '' @ bs,
       ''            -d '' @ sq @ ''${groovy.json.JsonOutput.toJson(message)}'' @ sq,
       ''        """'',
       ''    }'',
       ''    '']\<close>

definition generateDiscordNotification :: "string \<Rightarrow> string" where
\<open>generateDiscordNotification webhook =
     join_nl
      ['''',
       ''def sendDiscordNotification(status, stageName = '' @ sq @ sq @ '') {'',
       ''  def color = status == '' @ sq @ ''SUCCESS'' @ sq @ '' ? 3066993 : 15158332'',
       ''  def message = ['',
       ''    embeds: [['',
       ''      title: "Jenkins Pipeline ${status}",'',
       ''      description: "${env.JOB_NAME} #${env.BUILD_NUMBER}",'',
       ''      color: color,'',
       ''      fields: ['',
       ''        [name: "Status", value: status, inline: true],'',
       ''        [name: "Branch", value: "${env.BRANCH_NAME}", inline: true],'',
       ''        [name: "Duration", value: "${currentBuild.durationString}", inline: true],'',
       ''        ${stageName ? "[name: '' @ sq @ ''Stage'' @ sq @ '', value: '' @ sq @ ''${stageName}'' @ sq @ '', inline: true]," : ""}'',
       ''      ],'',
       ''      footer: [text: "Jenkins"],'',
       ''      timestamp: new Date().format("yyyy-MM-dd'' @ sq @ ''T'' @ sq @ ''HH:mm:ss'' @ sq @ ''Z'' @ sq @ ''"),'',
       ''      url: "${env.BUILD_URL}"'',
       ''    ]]'',
       ''  ]'',
       ''  '',
       ''  sh """'',
       ''    curl -X POST '' @ sq @ webhook @ sq @ '' '' @ bs,
       ''    -H '' @ sq @ ''Content-Type: application/json'' @ sq @ '' '' @ bs,
       ''    -d '' @ sq @ ''${groovy.json.JsonOutput.toJson(message)}'' @ sq,
       ''  """'',
       ''}'',
       '''']\<close>

definition generateTeamsNotification :: "string \<Rightarrow> string" where
\<open>generateTeamsNotification webhook =
     join_nl
      ['''',
       ''def sendTeamsNotification(status, stageName = '' @ sq @ sq @ '') {'',
       ''  def color = status == '' @ sq @ ''SUCCESS'' @ sq @ '' ? '' @ sq @ ''00FF00'' @ sq @ '' : '' @ sq @ ''FF0000'' @ sq,
       ''  def message = ['',
       ''    "@type": "MessageCard",'',
       ''    "@context": "http://schema.org/extensions",'',
       ''    themeColor: color,'',
       ''    summary: "Jenkins Pipeline ${status}",'',
       ''    sections: [['',
       ''      activityTitle: "Jenkins Pipeline ${status}",'',
       ''      activitySubtitle: "${env.JOB_NAME} #${env.BUILD_NUMBER}",'',
       ''      facts: ['',
       ''        [name: "Status", value: status],'',
       ''        [name: "Branch", value: "${env.BRANCH_NAME}"],'',
       ''        [name: "Duration", value: "${currentBuild.durationString}"],'',
       ''        ${stageName ? "[name: '' @ sq @ ''Stage'' @ sq @ '', value: '' @ sq @ ''${stageName}'' @ sq @ '']," : ""}'',
       ''      ],'',
       ''      markdown: true'',
       ''    ]],'',
       ''    potentialAction: [['',
       ''      "@type": "OpenUri",'',
       ''      name: "View Build",'',
       ''      targets: [['',
       ''        os: "default",'',
       ''        uri: "${env.BUILD_URL}"'',
       ''      ]]'',
       ''    ]]'',
       ''  ]'',
       ''  '',
       ''  sh """'',
       ''    curl -X POST '' @ sq @ webhook @ sq @ '' '' @ bs,
       ''    -H '' @ sq @ ''Content-Type: application/json'' @ sq @ '' '' @ bs,
       ''    -d '' @ sq @ ''${groovy.json.JsonOutput.toJson(message)}'' @ sq,
       ''  """'',
       ''}'',
       '''']\<close>

text \<open>
  \<open>js_index xs i\<close> is the element access \<open>xs[i]\<close>: \<open>undefined\<close> outside the array. The
  Telegram routine splits the webhook at every slash and reads the last two elements; the
  body of the routine is \<open>telegram_routine\<close>, with the two values interpolated.
\<close>

definition js_index :: "'a list \<Rightarrow> int \<Rightarrow> 'a option" where
  "js_index xs i = (if 0 \<le> i \<and> i < int (length xs) then Some (xs ! nat i) else None)"

definition telegram_routine :: "string option \<Rightarrow> string option \<Rightarrow> string" where
\<open>telegram_routine botToken chatId =
     join_nl
      ['''',
       ''def sendTelegramNotification(status, stageName = '' @ sq @ sq @ '') {'',
       ''  def emoji = status == '' @ sq @ ''SUCCESS'' @ sq @ '' ? '' @ sq @ [CHR 0xE2, CHR 0x9C, CHR 0x85] @ sq @ '' : '' @ sq @ [CHR 0xE2, CHR 0x9D, CHR 0x8C] @ sq,
       ''  def message = """'',
       ''${emoji} *Jenkins Pipeline ${status}*'',
       '''',
       ''*Job:* ${env.JOB_NAME}'',
       ''*Build:* #${env.BUILD_NUMBER}'',
       ''*Status:* ${status}'',
       ''*Branch:* ${env.BRANCH_NAME}'',
       ''${stageName ? "*Stage:* ${stageName}" : ""}'',
       ''*Duration:* ${currentBuild.durationString}'',
       '''',
       ''[View Build](${env.BUILD_URL})'',
       ''  """'',
       ''  '',
       ''  sh """'',
       ''    curl -X POST '' @ sq @ ''https://api.telegram.org/bot'' @ js_str botToken @ ''/sendMessage'' @ sq @ '' '' @ bs,
       ''    -H '' @ sq @ ''Content-Type: application/json'' @ sq @ '' '' @ bs,
       ''    -d '' @ sq @ ''{'',
       ''      "chat_id": "'' @ js_str chatId @ ''",'',
       ''      "text": "${message.replaceAll('' @ sq @ ''"'' @ sq @ '', '' @ sq @ bs @ bs @ ''"'' @ sq @ '')}",'',
       ''      "parse_mode": "Markdown",'',
       ''      "disable_web_page_preview": true'',
       ''    }'' @ sq,
       ''  """'',
       ''}'',
       '''']\<close>

definition generateTelegramNotification :: "string \<Rightarrow> string" where
  "generateTelegramNotification webhook =
     (let parts = split_on (CHR ''/'') webhook;
          botToken = js_index parts (int (length parts) - 2);
          chatId = js_index parts (int (length parts) - 1)
      in telegram_routine botToken chatId)"

text \<open>
  One pass of the loop over the platforms: nothing for a platform without a (non-empty)
  webhook or with another type tag.
\<close>

definition platform_script :: "NotificationPlatform \<Rightarrow> string" where
  "platform_script platform =
     (case np_webhook platform of
        None \<Rightarrow> []
      | Some webhook \<Rightarrow>
          if webhook = [] then []
          else if np_type platform = ''slack'' then generateSlackNotification webhook
          else if np_type platform = ''discord'' then generateDiscordNotification webhook
          else if np_type platform = ''teams'' then generateTeamsNotification webhook
          else if np_type platform = ''telegram'' then generateTelegramNotification webhook
          else [])"

definition generateNotificationScript :: "NotificationConfig \<Rightarrow> string" where
  "generateNotificationScript config =
     foldl (\<lambda>script platform. script @ platform_script platform)
       (generateEmailNotification (nc_email config)) (nc_platforms config)"

definition generatePostStageNotifications :: string where
\<open>generatePostStageNotifications =
     join_nl
      ['''',
       ''    post {'',
       ''      success {'',
       ''        script {'',
       ''            sendEmailNotification('' @ sq @ ''SUCCESS'' @ sq @ '')'',
       ''            try {sendSlackNotification('' @ sq @ ''SUCCESS'' @ sq @ '')} catch(e){}'',
       ''            try {sendDiscordNotification('' @ sq @ ''SUCCESS'' @ sq @ '')} catch(e){}'',
       ''            try {sendTeamsNotification('' @ sq @ ''SUCCESS'' @ sq @ '')} catch(e){}'',
       ''            try {sendTelegramNotification('' @ sq @ ''SUCCESS'' @ sq @ '')} catch(e){}'',
       ''        }'',
       ''      }'',
       ''      failure {'',
       ''        script {'',
       ''            sendEmailNotification('' @ sq @ ''FAILURE'' @ sq @ '')'',
       ''            try {sendSlackNotification('' @ sq @ ''FAILURE'' @ sq @ '')} catch(e){}'',
       ''            try {sendDiscordNotification('' @ sq @ ''FAILURE'' @ sq @ '')} catch(e){}'',
       ''            try {sendTeamsNotification('' @ sq @ ''FAILURE'' @ sq @ '')} catch(e){}'',
       ''            try {sendTelegramNotification('' @ sq @ ''FAILURE'' @ sq @ '')} catch(e){}'',
       ''        }'',
       ''      }'',
       ''      unstable {'',
       ''        script {'',
       ''            sendEmailNotification('' @ sq @ ''UNSTABLE'' @ sq @ '')'',
       ''            try {sendSlackNotification('' @ sq @ ''UNSTABLE'' @ sq @ '')} catch(e){}'',
       ''            try {sendDiscordNotification('' @ sq @ ''UNSTABLE'' @ sq @ '')} catch(e){}'',
       ''            try {sendTeamsNotification('' @ sq @ ''UNSTABLE'' @ sq @ '')} catch(e){}'',
       ''            try {sendTelegramNotification('' @ sq @ ''UNSTABLE'' @ sq @ '')} catch(e){}'',
       ''        }'',
       ''      }'',
       ''    }'']\<close>

section \<open>Notions used by the properties\<close>

text \<open>
  The emitted scripts are line oriented, and the properties below speak of the lines of a
  script. A configuration is \<open>plain\<close> for an artifact name when none of the text values
  interpolated into a deployment script holds a line break.
\<close>

definition plain_config :: "CloudConfig \<Rightarrow> string \<Rightarrow> bool" where
  "plain_config config dockerImageName =
     (nl \<notin> set (region config) \<and> nl \<notin> set dockerImageName \<and>
      nl \<notin> set (healthCheckPath (deploymentConfig config)) \<and>
      nl \<notin> set (deploymentStrategy (deploymentConfig config)) \<and>
      nl \<notin> set (js_str (oidcRoleArn_of (credentials config))) \<and>
      nl \<notin> set (js_str (loadBalancerUrl (deploymentConfig config))))"

text \<open>
  The lines of each provider's script that read a static long-lived credential, and the
  lines that read a federated (OIDC) token. DigitalOcean has no OIDC lines.
\<close>

definition static_lines :: "string \<Rightarrow> string list" where
\<open>static_lines p =
   (if p = ''aws'' then
      [''    aws configure set aws_access_key_id ${AWS_ACCESS_KEY_ID}'',
       ''    aws configure set aws_secret_access_key ${AWS_SECRET_ACCESS_KEY}'']
    else if p = ''azure'' then
      [''        -p ${AZURE_CLIENT_SECRET} '' @ bs]
    else if p = ''gcp'' then
      [''    gcloud auth activate-service-account --key-file=${GCP_KEY_FILE}'']
    else if p = ''digitalocean'' then
      [''    doctl auth init --access-token ${DO_API_TOKEN}'']
    else [])\<close>

definition oidc_lines :: "string \<Rightarrow> string list" where
\<open>oidc_lines p =
   (if p = ''aws'' then
      [''    $(aws sts assume-role-with-web-identity '' @ bs,
       ''    --web-identity-token ${AWS_WEB_IDENTITY_TOKEN} '' @ bs]
    else if p = ''azure'' then
      [''        --federated-token ${AZURE_FEDERATED_TOKEN}'']
    else if p = ''gcp'' then
      [''    echo ${GCP_OIDC_TOKEN} > oidc_token.txt'',
       ''    gcloud auth login --cred-file=oidc_token.txt'']
    else [])\<close>

text \<open>The credential lines of a provider that occur in a script, in order.\<close>

definition credential_lines_in :: "string \<Rightarrow> string \<Rightarrow> string list" where
  "credential_lines_in p s =
     filter (\<lambda>l. l \<in> set (static_lines p @ oidc_lines p)) (lines_of s)"

text \<open>The condition under which the code emits the OIDC block.\<close>

definition oidc_selected :: "CloudConfig \<Rightarrow> bool" where
  "oidc_selected config =
     (if provider config = ''aws'' then
        useOIDC_of (credentials config) \<and> truthy_str (oidcRoleArn_of (credentials config))
      else if provider config = ''azure'' \<or> provider config = ''gcp'' then
        useOIDC_of (credentials config)
      else False)"

definition has_static :: "string \<Rightarrow> string \<Rightarrow> bool" where
  "has_static p s = (\<exists>l\<in>set (static_lines p). l \<in> set (lines_of s))"

definition has_oidc :: "string \<Rightarrow> string \<Rightarrow> bool" where
  "has_oidc p s = (\<exists>l\<in>set (oidc_lines p). l \<in> set (lines_of s))"

text \<open>
  The runtime lookup of each provider, as lines of its script: the commands that derive
  \<open>DEPLOYED_URL\<close> from the deployed resource. \<open>portText\<close> is the rendered port.
\<close>

definition runtime_lookup :: "string \<Rightarrow> string \<Rightarrow> string \<Rightarrow> string list" where
\<open>runtime_lookup p dockerImageName portText =
   (if p = ''aws'' then
      [''    TASK_ARN=$(aws ecs list-tasks --cluster '' @ dockerImageName @
         ''-cluster --service-name '' @ dockerImageName @ ''-service --query '' @ sq @
         ''taskArns[0]'' @ sq @ '' --output text)'',
       ''    ENI_ID=$(aws ecs describe-tasks --cluster '' @ dockerImageName @
         ''-cluster --tasks $TASK_ARN --query '' @ sq @
         ''tasks[0].attachments[0].details[?name==`networkInterfaceId`].value'' @ sq @
         '' --output text)'',
       ''    PUBLIC_IP=$(aws ec2 describe-network-interfaces --network-interface-ids $ENI_ID --query '' @
         sq @ ''NetworkInterfaces[0].Association.PublicIp'' @ sq @ '' --output text)'',
       ''    export DEPLOYED_URL="http://$PUBLIC_IP:'' @ portText @ ''"'']
    else if p = ''azure'' then
      [''    export DEPLOYED_URL="http://'' @ dockerImageName @
         ''.${AZURE_REGION}.azurecontainer.io:'' @ portText @ ''"'']
    else if p = ''gcp'' then
      [''    export DEPLOYED_URL=$(cat gcp_url.txt)'']
    else if p = ''digitalocean'' then
      [''    export DEPLOYED_URL=$(doctl apps get $APP_ID --format DefaultIngress --no-header)'']
    else [])\<close>

text \<open>
  The update commands of the AWS script: the forced new deployment (emitted in the
  blue-green branch and in the default branch) and the canary command, which raises the
  desired count to one above \<open>minInstances || 1\<close>.
\<close>

definition force_deploy_line :: "string \<Rightarrow> string" where
  "force_deploy_line dockerImageName =
     ''            aws ecs update-service --cluster '' @ dockerImageName @
     ''-cluster --service '' @ dockerImageName @ ''-service --task-definition '' @
     dockerImageName @ '' --force-new-deployment''"

definition canary_line :: "string \<Rightarrow> int \<Rightarrow> string" where
  "canary_line dockerImageName n =
     ''            aws ecs update-service --cluster '' @ dockerImageName @
     ''-cluster --service '' @ dockerImageName @ ''-service --task-definition '' @
     dockerImageName @ '' --desired-count $(( '' @ show_num n @ '' + 1 ))''"

text \<open>
  The update path of the AWS script, line by line: the shell conditional over the
  interpolated strategy, with the forced new deployment in the blue-green branch and in
  the default branch and the canary command in the canary branch.
\<close>

definition update_block :: "CloudConfig \<Rightarrow> string \<Rightarrow> string list" where
\<open>update_block config dockerImageName =
   [''        if [ "'' @ deploymentStrategy (deploymentConfig config) @ ''" == "blue-green" ]; then'',
    ''            echo "Performing Blue-Green deployment..."'',
    ''            # Simulating blue-green by creating/updating a '' @ sq @ ''green'' @ sq @ '' version'',
    force_deploy_line dockerImageName,
    ''        elif [ "'' @ deploymentStrategy (deploymentConfig config) @ ''" == "canary" ]; then'',
    ''            echo "Performing Canary deployment (10% traffic)..."'',
    canary_line dockerImageName (num_or (minInstances (deploymentConfig config)) 1),
    ''        else'',
    force_deploy_line dockerImageName,
    ''        fi'']\<close>

definition with_strategy :: "CloudConfig \<Rightarrow> string \<Rightarrow> CloudConfig" where
  "with_strategy config s =
     config\<lparr>deploymentConfig := (deploymentConfig config)\<lparr>deploymentStrategy := s\<rparr>\<rparr>"



definition with_instances :: "CloudConfig \<Rightarrow> int option \<Rightarrow> int option \<Rightarrow> CloudConfig" where
  "with_instances config mn mx =
     config\<lparr>deploymentConfig :=
       (deploymentConfig config)\<lparr>minInstances := mn, maxInstances := mx\<rparr>\<rparr>"

text \<open>
  The two lines of the Telegram routine that carry the bot token and the chat id.
\<close>

definition telegram_curl_line :: "string \<Rightarrow> string" where
  "telegram_curl_line botToken =
     ''    curl -X POST '' @ sq @ ''https://api.telegram.org/bot'' @ botToken @
     ''/sendMessage'' @ sq @ '' '' @ bs"

definition telegram_chat_line :: "string \<Rightarrow> string" where
\<open>telegram_chat_line chatId = ''      "chat_id": "'' @ chatId @ ''",''\<close>

text \<open>
  The lifecycle wrapper, read as Groovy: in each of the three \<open>post\<close> sections a
  \<open>script\<close> block calls the five routines in order, the e-mail routine bare and each
  channel routine inside \<open>try {...} catch(e){}\<close>. \<open>post_text\<close> writes the wrapper from
  these steps; it is the text the generator returns (lemma \<open>post_text_eq\<close>).
  \<open>run_steps fails\<close> lists the routines a \<open>script\<close> block invokes when the calls of the
  routines in \<open>fails\<close> throw: an exception of a bare call leaves the block, an exception
  inside \<open>try\<close> is caught and the block goes on.
\<close>

datatype step = Call string | TryCall string

definition post_steps :: "step list" where
  "post_steps =
     [Call ''sendEmailNotification'', TryCall ''sendSlackNotification'',
      TryCall ''sendDiscordNotification'', TryCall ''sendTeamsNotification'',
      TryCall ''sendTelegramNotification'']"

fun step_text :: "string \<Rightarrow> step \<Rightarrow> string" where
  "step_text status (Call f) = ''            '' @ f @ ''('' @ sq @ status @ sq @ '')''"
| "step_text status (TryCall f) =
     ''            try {'' @ f @ ''('' @ sq @ status @ sq @ '')} catch(e){}''"

definition post_section :: "string \<Rightarrow> string \<Rightarrow> string list" where
  "post_section outcome status =
     [''      '' @ outcome @ '' {'', ''        script {''] @
     map (step_text status) post_steps @
     [''        }'', ''      }'']"

definition post_text :: string where
  "post_text =
     join_nl ([[], ''    post {''] @
              post_section ''success'' ''SUCCESS'' @
              post_section ''failure'' ''FAILURE'' @
              post_section ''unstable'' ''UNSTABLE'' @
              [''    }''])"

fun step_name :: "step \<Rightarrow> string" where
  "step_name (Call f) = f"
| "step_name (TryCall f) = f"

fun run_steps :: "(string \<Rightarrow> bool) \<Rightarrow> step list \<Rightarrow> string list" where
  "run_steps fails [] = []"
| "run_steps fails (Call f # rest) = f # (if fails f then [] else run_steps fails rest)"
| "run_steps fails (TryCall f # rest) = f # run_steps fails rest"

text \<open>The fixed lookup table of \<open>getServiceConfig\<close> and its fallback entry.\<close>

definition lookup_table :: "string list" where
  "lookup_table = [''postgresql'', ''mongodb'', ''redis'', ''mysql'', ''mariadb'', ''rabbitmq'']"

definition placeholder :: yval where
  "placeholder = YObj [(''image'', YStr ''alpine:latest''), (''command'', YStr ''sleep infinity'')]"

fun image_of :: "yval \<Rightarrow> string option" where
  "image_of (YObj kvs) = (case map_of kvs ''image'' of Some (YStr s) \<Rightarrow> Some s | _ \<Rightarrow> None)"
| "image_of _ = None"

text \<open>
  The lines of a provider's deployment script, and of its manifest, that render the
  artifact name, the port or the health-check path: every such line of the templates, the
  lines of the runtime lookup (emitted without a load-balancer URL) included.
\<close>

definition script_value_lines :: "CloudConfig \<Rightarrow> string \<Rightarrow> string list" where
\<open>script_value_lines config dockerImageName =
   (if provider config = ''aws'' then
      [''    aws ecs create-cluster --cluster-name '' @ dockerImageName @
         ''-cluster || true'',
       ''        "family": "'' @ dockerImageName @ ''",'',
       ''            "name": "'' @ dockerImageName @ ''",'',
       ''                    "containerPort": '' @ show_num (port (deploymentConfig config)) @
         '','',
       ''                    "awslogs-group": "/ecs/'' @ dockerImageName @ ''",'',
       ''            "command": ["CMD-SHELL", "curl -f http://localhost:'' @
         show_num (port (deploymentConfig config)) @ healthCheckPath (deploymentConfig config) @
         '' || exit 1"],'',
       ''    SERVICE_EXISTS=$(aws ecs describe-services --cluster '' @ dockerImageName @
         ''-cluster --services '' @ dockerImageName @ ''-service --query '' @ sq @
         ''services[0].status'' @ sq @ '' --output text || echo "MISSING")'',
       ''            --cluster '' @ dockerImageName @ ''-cluster '' @ bs,
       ''            --service-name '' @ dockerImageName @ ''-service '' @ bs,
       ''            --task-definition '' @ dockerImageName @ '' '' @ bs,
       ''            aws ecs update-service --cluster '' @ dockerImageName @
         ''-cluster --service '' @ dockerImageName @ ''-service --task-definition '' @
         dockerImageName @ '' --force-new-deployment'',
       ''            aws ecs update-service --cluster '' @ dockerImageName @
         ''-cluster --service '' @ dockerImageName @ ''-service --task-definition '' @
         dockerImageName @ '' --desired-count $(( '' @
         show_num (num_or (minInstances (deploymentConfig config)) 1) @ '' + 1 ))'',
       ''            aws ecs update-service --cluster '' @ dockerImageName @
         ''-cluster --service '' @ dockerImageName @ ''-service --task-definition '' @
         dockerImageName @ '' --force-new-deployment''] @
      (if useLoadBalancer (deploymentConfig config) \<and>
          truthy_str (loadBalancerUrl (deploymentConfig config))
       then []
       else [''    TASK_ARN=$(aws ecs list-tasks --cluster '' @ dockerImageName @
               ''-cluster --service-name '' @ dockerImageName @ ''-service --query '' @ sq @
               ''taskArns[0]'' @ sq @ '' --output text)'',
             ''    ENI_ID=$(aws ecs describe-tasks --cluster '' @ dockerImageName @
               ''-cluster --tasks $TASK_ARN --query '' @ sq @
               ''tasks[0].attachments[0].details[?name==`networkInterfaceId`].value'' @ sq @
               '' --output text)'',
             ''    export DEPLOYED_URL="http://$PUBLIC_IP:'' @
               show_num (port (deploymentConfig config)) @ ''"''])
    else if provider config = ''azure'' then
      [''        --name '' @ dockerImageName @ '' '' @ bs,
       ''        --dns-name-label '' @ dockerImageName @ '' '' @ bs,
       ''        --ports '' @ show_num (port (deploymentConfig config)) @ '' '' @ bs] @
      (if useLoadBalancer (deploymentConfig config) \<and>
          truthy_str (loadBalancerUrl (deploymentConfig config))
       then []
       else [''    export DEPLOYED_URL="http://'' @ dockerImageName @
               ''.${AZURE_REGION}.azurecontainer.io:'' @
               show_num (port (deploymentConfig config)) @ ''"''])
    else if provider config = ''gcp'' then
      [''    gcloud run deploy '' @ dockerImageName @ '' '' @ bs,
       ''        --port '' @ show_num (port (deploymentConfig config)) @ '' '' @ bs]
    else if provider config = ''digitalocean'' then
      [''    name: '' @ dockerImageName,
       ''        - name: '' @ dockerImageName,
       ''          http_port: '' @ show_num (port (deploymentConfig config)),
       ''            http_path: '' @ healthCheckPath (deploymentConfig config)]
    else [])\<close>

definition manifest_value_lines :: "CloudConfig \<Rightarrow> string \<Rightarrow> string list" where
\<open>manifest_value_lines config dockerImageName =
   (if provider config = ''aws'' then
      [''  name = "'' @ dockerImageName @ ''-cluster"'',
       ''  name = "'' @ dockerImageName @ ''-task-exec-role"'']
    else if provider config = ''azure'' then
      [''  name                = "'' @ dockerImageName @ ''"'',
       ''  dns_name_label      = "'' @ dockerImageName @ ''"'',
       ''    name   = "'' @ dockerImageName @ ''"'',
       ''      port     = '' @ show_num (port (deploymentConfig config))]
    else if provider config = ''gcp'' then
      [''  name     = "'' @ dockerImageName @ ''"'',
       ''          container_port = '' @ show_num (port (deploymentConfig config))]
    else if provider config = ''digitalocean'' then
      [''    name   = "'' @ dockerImageName @ ''"'',
       ''      name               = "'' @ dockerImageName @ ''"'',
       ''      http_port = '' @ show_num (port (deploymentConfig config)),
       ''        http_path = "'' @ healthCheckPath (deploymentConfig config) @ ''"'']
    else [])\<close>

text \<open>
  \<open>with_values config p h\<close> is the configuration with another port and health-check path.
  Two texts \<open>differ_only_at\<close> two lists of lines when they have the same number of lines
  and, line by line, the lines are equal or are the lines at one position of the two
  lists.
\<close>

definition with_values :: "CloudConfig \<Rightarrow> int \<Rightarrow> string \<Rightarrow> CloudConfig" where
  "with_values config p h =
     config\<lparr>deploymentConfig := (deploymentConfig config)\<lparr>port := p, healthCheckPath := h\<rparr>\<rparr>"

definition paired :: "string list \<Rightarrow> string list \<Rightarrow> string \<Rightarrow> string \<Rightarrow> bool" where
  "paired vs vs' l l' = (l = l' \<or> (l, l') \<in> set (zip vs vs'))"

definition differ_only_at :: "string list \<Rightarrow> string list \<Rightarrow> string list \<Rightarrow> string list \<Rightarrow> bool" where
  "differ_only_at vs vs' ls ls' = list_all2 (paired vs vs') ls ls'"

text \<open>The port binding of the application service in the compose manifest.\<close>

definition compose_port_text :: "CICDConfig \<Rightarrow> string" where
\<open>compose_port_text config =
   ''    ports:'' @ [nl] @
   ''      - "'' @ show_num (port (deploymentConfig (cloud config))) @ '':'' @
                  show_num (port (deploymentConfig (cloud config))) @ ''"'' @ [nl]\<close>

section \<open>Example configurations\<close>

definition base_deployment :: DeploymentConfig where
  "base_deployment =
     \<lparr>tier = ''production'', autoScaling = False, minInstances = Some 1, maxInstances = Some 1,
      healthCheckPath = ''/health'', port = 3000, useLoadBalancer = False,
      loadBalancerUrl = None, deploymentStrategy = ''rolling'', environmentVariables = []\<rparr>"

definition cloud_of :: "string \<Rightarrow> Credentials \<Rightarrow> DeploymentConfig \<Rightarrow> CloudConfig" where
  "cloud_of p c dc =
     \<lparr>provider = p, credentials = c, region = ''us-east-1'', instanceType = ''t3.micro'',
      deploymentConfig = dc, managedServices = []\<rparr>"

definition aws_creds :: "bool \<Rightarrow> string option \<Rightarrow> Credentials" where
  "aws_creds oidc arn =
     AWS \<lparr>accessKeyId = None, secretAccessKey = None, aws_region = ''us-east-1'',
          aws_useOIDC = oidc, oidcRoleArn = arn\<rparr>"

definition azure_creds :: "bool \<Rightarrow> Credentials" where
  "azure_creds oidc =
     Azure \<lparr>subscriptionId = ''sub'', clientId = ''client'', clientSecret = None,
            tenantId = ''tenant'', azure_useOIDC = oidc\<rparr>"

definition gcp_creds :: "bool \<Rightarrow> Credentials" where
  "gcp_creds oidc =
     GCP \<lparr>projectId = ''proj'', keyFile = None, gcp_region = ''us-east-1'', gcp_useOIDC = oidc\<rparr>"

definition do_creds :: Credentials where
  "do_creds = DO \<lparr>apiToken = ''token'', do_region = ''nyc1''\<rparr>"

definition lb_deployment :: DeploymentConfig where
  "lb_deployment =
     base_deployment\<lparr>useLoadBalancer := True, loadBalancerUrl := Some ''https://api.example.com''\<rparr>"


definition example_service :: "string \<Rightarrow> string \<Rightarrow> ExternalService" where
  "example_service n s =
     \<lparr>es_type = ''database'', es_name = n, es_service = s, envVariables = [],
      connectionString = None, requiresInfrastructure = True\<rparr>"

definition example_cicd :: "CloudConfig \<Rightarrow> ExternalService list \<Rightarrow> CICDConfig" where
  "example_cicd c svcs =
     \<lparr>project =
        \<lparr>projectName = ''shop'', projectType = ''backend'', language = ''typescript'',
         repository = ''https://github.com/acme/shop.git'', branch = ''main'',
         hasDockerfile = True, dockerfilePath = Some ''Dockerfile'', runTests = False,
         testCommand = None, buildCommand = None, requiresEnvFile = False,
         envFilePath = None, externalServices = svcs\<rparr>,
      cloud = c,
      notifications = \<lparr>nc_email = ''ops@example.com'', nc_platforms = [], nc_webhookUrls = None\<rparr>,
      jenkinsConfig =
        \<lparr>agentLabel = ''any'', timeout = 30, retryCount = 1,
         jenkins_environmentVariables = []\<rparr>\<rparr>"

definition telegram_notifications :: "string \<Rightarrow> NotificationConfig" where
  "telegram_notifications w =
     \<lparr>nc_email = ''ops@example.com'',
      nc_platforms = [\<lparr>np_type = ''telegram'', np_webhook = Some w, np_apiKey = None\<rparr>],
      nc_webhookUrls = None\<rparr>"

section \<open>Lemmas on strings and lines\<close>

declare join_nl.simps [simp del]
declare yamlify.simps [simp del]
declare replace_spaces.simps [simp del]

lemma digits_chars: "set (digits n) \<subseteq> set ''0123456789''"
proof (induction n rule: digits.induct)
  case (1 n)
  have d: "''0123456789'' ! k \<in> set ''0123456789''" if "k < 10" for k
    using that by (intro nth_mem) simp
  show ?case
  proof (cases "n < 10")
    case True
    then have "digits n = [''0123456789'' ! n]"
      by (subst digits.simps) simp
    with d[OF True] show ?thesis by simp
  next
    case False
    then have e: "digits n = digits (n div 10) @ [''0123456789'' ! (n mod 10)]"
      by (subst digits.simps) simp
    have "n mod 10 < 10" by simp
    from d[OF this] 1[OF False] show ?thesis unfolding e by simp
  qed
qed

lemma show_num_no_nl [simp]: "nl \<notin> set (show_num i)"
proof -
  have "nl \<notin> set ''0123456789''" by simp
  then have "nl \<notin> set (digits k)" for k using digits_chars[of k] by blast
  then show ?thesis by (simp add: show_num_def)
qed

lemma show_num_values:
  "show_num 0 = ''0''" "show_num 1 = ''1''" "show_num 3 = ''3''" "show_num 3000 = ''3000''"
  by (simp_all add: show_num_def digits.simps)

lemma split_on_nonempty: "split_on c s \<noteq> []"
  by (induction s) (auto split: list.splits)

lemma split_on_append_sep: "split_on c (a @ c # b) = split_on c a @ split_on c b"
proof (induction a)
  case Nil
  show ?case by simp
next
  case (Cons x a)
  obtain p ps where "split_on c a = p # ps"
    using split_on_nonempty[of c a] by (cases "split_on c a") auto
  with Cons show ?case by simp
qed

lemma split_on_free: "c \<notin> set v \<Longrightarrow> split_on c v = [v]"
  by (induction v) auto

lemma lines_of_free: "nl \<notin> set l \<Longrightarrow> lines_of l = [l]"
  by (simp add: lines_of_def split_on_free)

lemma lines_of_join_Cons:
  "lines_of (join_nl (l # m # ls)) = lines_of l @ lines_of (join_nl (m # ls))"
  by (simp add: lines_of_def join_nl.simps split_on_append_sep)

lemma lines_of_join_single: "lines_of (join_nl [l]) = lines_of l"
  by (simp add: join_nl.simps)

lemma prefix_join_nl: "p @ join_nl (l # ls) = join_nl ((p @ l) # ls)"
  by (cases ls) (simp_all add: join_nl.simps)

lemma cons_join_nl: "c # join_nl (l # ls) = join_nl ((c # l) # ls)"
  by (cases ls) (simp_all add: join_nl.simps)

lemmas lines_simps =
  lines_of_join_Cons lines_of_join_single prefix_join_nl cons_join_nl lines_of_free

lemma join_nl_append:
  "A \<noteq> [] \<Longrightarrow> B \<noteq> [] \<Longrightarrow> join_nl (A @ B) = join_nl A @ nl # join_nl B"
proof (induction A rule: join_nl.induct)
  case 1
  then show ?case by simp
next
  case (2 l)
  then show ?case by (cases B) (simp_all add: join_nl.simps)
next
  case (3 l m ls)
  then show ?case by (simp add: join_nl.simps)
qed

lemma lines_of_join_append:
  "A \<noteq> [] \<Longrightarrow> B \<noteq> [] \<Longrightarrow>
   lines_of (join_nl (A @ B)) = lines_of (join_nl A) @ lines_of (join_nl B)"
  by (simp add: join_nl_append lines_of_def split_on_append_sep)

lemma lines_of_join_plain:
  "B \<noteq> [] \<Longrightarrow> \<forall>l\<in>set B. nl \<notin> set l \<Longrightarrow> lines_of (join_nl B) = B"
proof (induction B rule: join_nl.induct)
  case 1
  then show ?case by simp
next
  case (2 l)
  then show ?case by (simp add: lines_of_join_single lines_of_free)
next
  case (3 l m ls)
  then show ?case by (simp add: lines_of_join_Cons lines_of_free)
qed

text \<open>Consecutive elements of a template that hold no line break are consecutive lines.\<close>

lemma block_in_lines:
  assumes "take m (drop k L) = B" and "B \<noteq> []" and "take k L \<noteq> []"
      and "drop (k + m) L \<noteq> []" and "\<forall>l\<in>set B. nl \<notin> set l"
  shows "sublist B (lines_of (join_nl L))"
proof -
  have "drop k L = take m (drop k L) @ drop m (drop k L)"
    by (rule append_take_drop_id[symmetric])
  then have "drop k L = B @ drop (k + m) L"
    using assms(1) by (simp add: add.commute)
  then have L: "L = take k L @ B @ drop (k + m) L"
    using append_take_drop_id[of k L] by simp
  have n: "B @ drop (k + m) L \<noteq> []"
    using assms(2) by simp
  have "lines_of (join_nl L) = lines_of (join_nl (take k L @ B @ drop (k + m) L))"
    using L by simp
  also have "\<dots> = lines_of (join_nl (take k L)) @ lines_of (join_nl (B @ drop (k + m) L))"
    by (rule lines_of_join_append[OF assms(3) n])
  also have "\<dots> = lines_of (join_nl (take k L)) @ lines_of (join_nl B) @
      lines_of (join_nl (drop (k + m) L))"
    by (simp add: lines_of_join_append[OF assms(2,4)])
  also have "\<dots> = lines_of (join_nl (take k L)) @ B @ lines_of (join_nl (drop (k + m) L))"
    by (simp add: lines_of_join_plain[OF assms(2,5)])
  finally show ?thesis
    by (metis sublist_appendI)
qed

section \<open>The lines of the blocks\<close>

text \<open>The lines of the reachable-URL block, indented as the scripts interpolate it.\<close>

lemma url_block_lines:
  assumes "nl \<notin> set (js_str (loadBalancerUrl dc))"
  shows \<open>lines_of (CHR '' '' # CHR '' '' # CHR '' '' # CHR '' '' # generateDeployedUrlExport dc d) =
    (if useLoadBalancer dc \<and> truthy_str (loadBalancerUrl dc) then
       [''    '',
        ''    export DEPLOYED_URL="'' @ js_str (loadBalancerUrl dc) @ ''"'',
        ''    echo "DEPLOYED_URL=$DEPLOYED_URL" >> deployment.env'',
        ''    echo "Deployment completed. Reachable at Load Balancer: $DEPLOYED_URL"'']
     else
       ''    '' # lines_of (CHR '' '' # CHR '' '' # CHR '' '' # CHR '' '' # d) @
       [''    echo "DEPLOYED_URL=$DEPLOYED_URL" >> deployment.env'',
        ''    echo "Deployment completed. Reachable at: $DEPLOYED_URL"''])\<close>
  using assms by (simp add: generateDeployedUrlExport_def lines_simps)

lemma aws_auth_block_lines:
  assumes "nl \<notin> set (region config)" "nl \<notin> set (js_str (oidcRoleArn_of (credentials config)))"
  shows \<open>lines_of (CHR '' '' # CHR '' '' # CHR '' '' # CHR '' '' # aws_authLogic config) =
    (if useOIDC_of (credentials config) \<and> truthy_str (oidcRoleArn_of (credentials config)) then
       [''    '',
        ''    # AWS OIDC Authentication'',
        ''    echo "Authenticating via OIDC..."'',
        ''    export $(printf "AWS_ACCESS_KEY_ID=%s AWS_SECRET_ACCESS_KEY=%s AWS_SESSION_TOKEN=%s" '' @ bs,
        ''    $(aws sts assume-role-with-web-identity '' @ bs,
        ''    --role-arn '' @ js_str (oidcRoleArn_of (credentials config)) @ '' '' @ bs,
        ''    --role-session-name JenkinsSession '' @ bs,
        ''    --web-identity-token ${AWS_WEB_IDENTITY_TOKEN} '' @ bs,
        ''    --query "Credentials.[AccessKeyId,SecretAccessKey,SessionToken]" '' @ bs,
        ''    --output text))'',
        ''    aws configure set region '' @ region config]
     else
       [''    '',
        ''    #AWS Deployment Configuration'',
        ''    aws configure set aws_access_key_id ${AWS_ACCESS_KEY_ID}'',
        ''    aws configure set aws_secret_access_key ${AWS_SECRET_ACCESS_KEY}'',
        ''    aws configure set region '' @ region config])\<close>
  using assms by (simp add: aws_authLogic_def lines_simps)

lemma azure_auth_block_lines:
  \<open>lines_of (CHR '' '' # CHR '' '' # CHR '' '' # CHR '' '' # azure_authLogic config) =
    (if useOIDC_of (credentials config) then
       [''    '',
        ''    # Azure OIDC Authentication'',
        ''    echo "Authenticating via OIDC..."'',
        ''    az login --service-principal '' @ bs,
        ''        -u ${AZURE_CLIENT_ID} '' @ bs,
        ''        -t ${AZURE_TENANT_ID} '' @ bs,
        ''        --federated-token ${AZURE_FEDERATED_TOKEN}'']
     else
       [''    '',
        ''    # Azure Deployment Configuration'',
        ''    az login --service-principal '' @ bs,
        ''        -u ${AZURE_CLIENT_ID} '' @ bs,
        ''        -p ${AZURE_CLIENT_SECRET} '' @ bs,
        ''        -t ${AZURE_TENANT_ID}''])\<close>
  by (simp add: azure_authLogic_def lines_simps)

lemma gcp_auth_block_lines:
  assumes "nl \<notin> set (region config)"
  shows \<open>lines_of (CHR '' '' # CHR '' '' # CHR '' '' # CHR '' '' # gcp_authLogic config) =
    (if useOIDC_of (credentials config) then
       [''    '',
        ''    # GCP OIDC Authentication'',
        ''    echo "Authenticating via OIDC..."'',
        ''    echo ${GCP_OIDC_TOKEN} > oidc_token.txt'',
        ''    gcloud auth login --cred-file=oidc_token.txt'',
        ''    gcloud config set project ${GCP_PROJECT_ID}'',
        ''    gcloud config set compute/region '' @ region config]
     else
       [''    '',
        ''    # GCP Deployment Configuration'',
        ''    gcloud auth activate-service-account --key-file=${GCP_KEY_FILE}'',
        ''    gcloud config set project ${GCP_PROJECT_ID}'',
        ''    gcloud config set compute/region '' @ region config])\<close>
  using assms by (simp add: gcp_authLogic_def lines_simps)

section \<open>The example configurations are plain\<close>

lemma plain_cloud_of:
  "plain_config (cloud_of p c base_deployment) ''app'' =
     (nl \<notin> set (js_str (oidcRoleArn_of c)))"
  by (simp add: plain_config_def cloud_of_def base_deployment_def js_str_def)


lemma aws_credential_lines:
  assumes "plain_config config dockerImageName"
  shows "credential_lines_in ''aws'' (generateAWSDeploymentScript config dockerImageName) =
    (if useOIDC_of (credentials config) \<and> truthy_str (oidcRoleArn_of (credentials config))
     then oidc_lines ''aws'' else static_lines ''aws'')"
  using assms
  by (simp add: plain_config_def credential_lines_in_def static_lines_def oidc_lines_def
      generateAWSDeploymentScript_def aws_defaultUrlScript_def lines_simps url_block_lines
      aws_auth_block_lines)

lemma azure_credential_lines:
  assumes "plain_config config dockerImageName"
  shows "credential_lines_in ''azure'' (generateAzureDeploymentScript config dockerImageName) =
    (if useOIDC_of (credentials config) then oidc_lines ''azure'' else static_lines ''azure'')"
  using assms
  by (simp add: plain_config_def credential_lines_in_def static_lines_def oidc_lines_def
      generateAzureDeploymentScript_def azure_defaultUrlScript_def lines_simps url_block_lines
      azure_auth_block_lines)

lemma gcp_credential_lines:
  assumes "plain_config config dockerImageName"
  shows "credential_lines_in ''gcp'' (generateGCPDeploymentScript config dockerImageName) =
    (if useOIDC_of (credentials config) then oidc_lines ''gcp'' else static_lines ''gcp'')"
  using assms
  by (simp add: plain_config_def credential_lines_in_def static_lines_def oidc_lines_def
      generateGCPDeploymentScript_def gcp_defaultUrlScript_def lines_simps url_block_lines
      gcp_auth_block_lines)

lemma do_credential_lines:
  assumes "plain_config config dockerImageName"
  shows "credential_lines_in ''digitalocean''
           (generateDigitalOceanDeploymentScript config dockerImageName) =
         static_lines ''digitalocean''"
  using assms
  by (simp add: plain_config_def credential_lines_in_def static_lines_def oidc_lines_def
      generateDigitalOceanDeploymentScript_def do_defaultUrlScript_def lines_simps
      url_block_lines)

section \<open>C1: the authentication block\<close>

lemma has_static_credential_lines:
  "has_static p s = (\<exists>l\<in>set (static_lines p). l \<in> set (credential_lines_in p s))"
  by (auto simp: has_static_def credential_lines_in_def)

lemma has_oidc_credential_lines:
  "has_oidc p s = (\<exists>l\<in>set (oidc_lines p). l \<in> set (credential_lines_in p s))"
  by (auto simp: has_oidc_def credential_lines_in_def)

lemma credential_lines_kinds:
  assumes "p \<in> {''aws'', ''azure'', ''gcp'', ''digitalocean''}"
      and "credential_lines_in p s = (if b then oidc_lines p else static_lines p)"
      and "b \<longrightarrow> p \<noteq> ''digitalocean''"
  shows "has_oidc p s = b \<and> has_static p s = (\<not> b)"
  using assms
  by (auto simp: has_static_credential_lines has_oidc_credential_lines static_lines_def
      oidc_lines_def split: if_splits)

text \<open>
  C1, as the code has it. For each of the four providers and every plain configuration the
  dispatcher returns a script, and the credential lines occurring in that script are
  exactly the lines of one kind: the OIDC lines when the OIDC block is selected, the
  static-credential lines otherwise; so the script has lines of exactly one of the two
  kinds. The OIDC block is selected by \<open>useOIDC\<close> for azure and gcp, by \<open>useOIDC\<close> together
  with a non-empty \<open>oidcRoleArn\<close> for aws, and never for digitalocean.
\<close>

theorem C1_one_authentication_kind:
  assumes "provider config \<in> {''aws'', ''azure'', ''gcp'', ''digitalocean''}"
      and "plain_config config dockerImageName"
  shows "\<exists>s. generateDeploymentScript config dockerImageName = Inr s \<and>
           credential_lines_in (provider config) s =
             (if oidc_selected config then oidc_lines (provider config)
              else static_lines (provider config)) \<and>
           has_oidc (provider config) s = oidc_selected config \<and>
           has_static (provider config) s = (\<not> oidc_selected config)"
proof -
  let ?p = "provider config"
  obtain s where s: "generateDeploymentScript config dockerImageName = Inr s"
    using assms(1) by (auto simp: generateDeploymentScript_def)
  have c: "credential_lines_in ?p s =
      (if oidc_selected config then oidc_lines ?p else static_lines ?p)"
    using assms(1) s aws_credential_lines[OF assms(2)] azure_credential_lines[OF assms(2)]
      gcp_credential_lines[OF assms(2)] do_credential_lines[OF assms(2)]
    by (auto simp: generateDeploymentScript_def oidc_selected_def split: if_splits)
  have d: "oidc_selected config \<longrightarrow> ?p \<noteq> ''digitalocean''"
    by (simp add: oidc_selected_def)
  from credential_lines_kinds[OF assms(1) c d] s c show ?thesis
    by blast
qed

theorem C1_one_authentication_kind_witness:
  "provider (cloud_of ''azure'' (azure_creds True) base_deployment)
     \<in> {''aws'', ''azure'', ''gcp'', ''digitalocean''} \<and>
   plain_config (cloud_of ''azure'' (azure_creds True) base_deployment) ''app'' \<and>
   oidc_selected (cloud_of ''azure'' (azure_creds True) base_deployment) \<and>
   (\<exists>s. generateDeploymentScript (cloud_of ''azure'' (azure_creds True) base_deployment) ''app''
          = Inr s \<and>
        has_oidc ''azure'' s \<and> \<not> has_static ''azure'' s)"
proof -
  let ?c = "cloud_of ''azure'' (azure_creds True) base_deployment"
  have p: "provider ?c = ''azure''"
    by (simp add: cloud_of_def)
  have h1: "provider ?c \<in> {''aws'', ''azure'', ''gcp'', ''digitalocean''}"
    by (simp add: p)
  have h2: "plain_config ?c ''app''"
    by (simp add: plain_cloud_of azure_creds_def js_str_def)
  have sel: "oidc_selected ?c"
    by (simp add: oidc_selected_def cloud_of_def azure_creds_def)
  from C1_one_authentication_kind[OF h1 h2] h1 h2 sel show ?thesis
    unfolding p by auto
qed

text \<open>
  The claim as stated fails for aws: with \<open>useOIDC\<close> true and no role ARN the script holds
  the static-credential lines and no OIDC line.
\<close>

theorem C1_counterexample:
  "useOIDC_of (credentials (cloud_of ''aws'' (aws_creds True None) base_deployment)) \<and>
   (\<exists>s. generateDeploymentScript (cloud_of ''aws'' (aws_creds True None) base_deployment) ''app''
          = Inr s \<and>
        has_static ''aws'' s \<and> \<not> has_oidc ''aws'' s)"
proof -
  let ?c = "cloud_of ''aws'' (aws_creds True None) base_deployment"
  have h: "plain_config ?c ''app''"
    by (simp add: plain_cloud_of aws_creds_def js_str_def)
  have u: "useOIDC_of (credentials ?c)" and t: "\<not> truthy_str (oidcRoleArn_of (credentials ?c))"
    by (simp_all add: cloud_of_def aws_creds_def truthy_str_def)
  have s: "generateDeploymentScript ?c ''app'' = Inr (generateAWSDeploymentScript ?c ''app'')"
    by (simp add: generateDeploymentScript_def cloud_of_def)
  have c: "credential_lines_in ''aws'' (generateAWSDeploymentScript ?c ''app'')
      = (if False then oidc_lines ''aws'' else static_lines ''aws'')"
    using aws_credential_lines[OF h] u t by simp
  have "''aws'' \<in> {''aws'', ''azure'', ''gcp'', ''digitalocean''}"
    by simp
  from credential_lines_kinds[OF this c] u s show ?thesis
    by simp
qed

section \<open>C2: the deployment strategy\<close>

lemma aws_strategy_lines:
  assumes "plain_config config dockerImageName"
  shows \<open>count_list (lines_of (generateAWSDeploymentScript config dockerImageName))
           (force_deploy_line dockerImageName) = 2 \<and>
         count_list (lines_of (generateAWSDeploymentScript config dockerImageName))
           (canary_line dockerImageName (num_or (minInstances (deploymentConfig config)) 1)) = 1\<close>
  using assms
  by (simp add: plain_config_def force_deploy_line_def canary_line_def
      generateAWSDeploymentScript_def aws_defaultUrlScript_def lines_simps url_block_lines
      aws_auth_block_lines)

lemma aws_update_block:
  assumes "plain_config config dockerImageName"
  shows "sublist (update_block config dockerImageName)
           (lines_of (generateAWSDeploymentScript config dockerImageName))"
  unfolding generateAWSDeploymentScript_def
proof (rule block_in_lines[where k = 58 and m = 10])
  show "\<forall>l\<in>set (update_block config dockerImageName). nl \<notin> set l"
    using assms
    by (simp add: plain_config_def update_block_def force_deploy_line_def canary_line_def)
qed (simp_all add: update_block_def force_deploy_line_def canary_line_def)

lemma azure_ignores_strategy:
  "generateAzureDeploymentScript (with_strategy config s) dockerImageName =
   generateAzureDeploymentScript config dockerImageName"
  by (simp add: with_strategy_def generateAzureDeploymentScript_def azure_authLogic_def
      azure_defaultUrlScript_def generateDeployedUrlExport_def)

lemma gcp_ignores_strategy:
  "generateGCPDeploymentScript (with_strategy config s) dockerImageName =
   generateGCPDeploymentScript config dockerImageName"
  by (simp add: with_strategy_def generateGCPDeploymentScript_def gcp_authLogic_def
      gcp_defaultUrlScript_def generateDeployedUrlExport_def)

lemma do_ignores_strategy:
  "generateDigitalOceanDeploymentScript (with_strategy config s) dockerImageName =
   generateDigitalOceanDeploymentScript config dockerImageName"
  by (simp add: with_strategy_def generateDigitalOceanDeploymentScript_def
      do_defaultUrlScript_def generateDeployedUrlExport_def)

lemma provider_with_strategy [simp]: "provider (with_strategy config s) = provider config"
  by (simp add: with_strategy_def)

text \<open>
  C2, as the code has it. Only the AWS script reads \<open>deploymentStrategy\<close>: its update path
  is the shell conditional of \<open>update_block\<close> over the interpolated strategy, whose lines
  are consecutive lines of the script, and the text of all three branches is emitted
  whatever the strategy. The forced new deployment stands in the blue-green branch and in
  the default (rolling) branch, and nowhere else: its line occurs twice. The canary
  command, with a desired count one above \<open>minInstances || 1\<close> (a safe integer), stands in
  the canary branch and occurs once. The scripts of the other three providers are the
  same for every strategy.
\<close>

theorem C2_strategy_commands:
  assumes "provider config \<in> {''aws'', ''azure'', ''gcp'', ''digitalocean''}"
      and "plain_config config dockerImageName"
      and "isSafeInteger (num_or (minInstances (deploymentConfig config)) 1)"
  shows \<open>\<exists>s. generateDeploymentScript config dockerImageName = Inr s \<and>
    (if provider config = ''aws'' then
       sublist (update_block config dockerImageName) (lines_of s) \<and>
       count_list (lines_of s) (force_deploy_line dockerImageName) = 2 \<and>
       count_list (lines_of s)
         (canary_line dockerImageName (num_or (minInstances (deploymentConfig config)) 1)) = 1
     else generateDeploymentScript (with_strategy config t) dockerImageName = Inr s)\<close>
  using assms(1) aws_strategy_lines[OF assms(2)] aws_update_block[OF assms(2)]
    azure_ignores_strategy[of config t dockerImageName]
    gcp_ignores_strategy[of config t dockerImageName]
    do_ignores_strategy[of config t dockerImageName]
  by (auto simp: generateDeploymentScript_def)

theorem C2_strategy_commands_witness:
  \<open>provider (cloud_of ''aws'' (aws_creds False None) base_deployment)
     \<in> {''aws'', ''azure'', ''gcp'', ''digitalocean''} \<and>
   plain_config (cloud_of ''aws'' (aws_creds False None) base_deployment) ''app'' \<and>
   isSafeInteger (num_or (minInstances (deploymentConfig
     (cloud_of ''aws'' (aws_creds False None) base_deployment))) 1) \<and>
   (\<exists>s. generateDeploymentScript (cloud_of ''aws'' (aws_creds False None) base_deployment) ''app''
          = Inr s \<and>
        sublist
          [''        if [ "rolling" == "blue-green" ]; then'',
           ''            echo "Performing Blue-Green deployment..."'',
           ''            # Simulating blue-green by creating/updating a '' @ sq @ ''green'' @ sq @ '' version'',
           ''            aws ecs update-service --cluster app-cluster --service app-service --task-definition app --force-new-deployment'',
           ''        elif [ "rolling" == "canary" ]; then'',
           ''            echo "Performing Canary deployment (10% traffic)..."'',
           ''            aws ecs update-service --cluster app-cluster --service app-service --task-definition app --desired-count $(( 1 + 1 ))'',
           ''        else'',
           ''            aws ecs update-service --cluster app-cluster --service app-service --task-definition app --force-new-deployment'',
           ''        fi'']
          (lines_of s) \<and>
        count_list (lines_of s) (force_deploy_line ''app'') = 2 \<and>
        count_list (lines_of s) (canary_line ''app'' 1) = 1)\<close>
proof -
  let ?c = "cloud_of ''aws'' (aws_creds False None) base_deployment"
  have p: "provider ?c = ''aws''"
    by (simp add: cloud_of_def)
  have h1: "provider ?c \<in> {''aws'', ''azure'', ''gcp'', ''digitalocean''}"
    by (simp add: p)
  have h2: "plain_config ?c ''app''"
    by (simp add: plain_cloud_of aws_creds_def js_str_def)
  have m: "num_or (minInstances (deploymentConfig ?c)) 1 = 1"
    and d: "deploymentStrategy (deploymentConfig ?c) = ''rolling''"
    by (simp_all add: cloud_of_def base_deployment_def num_or_def)
  have h3: "isSafeInteger (num_or (minInstances (deploymentConfig ?c)) 1)"
    unfolding m by (simp add: isSafeInteger_def)
  have b: \<open>update_block ?c ''app'' =
     [''        if [ "rolling" == "blue-green" ]; then'',
      ''            echo "Performing Blue-Green deployment..."'',
      ''            # Simulating blue-green by creating/updating a '' @ sq @ ''green'' @ sq @ '' version'',
      ''            aws ecs update-service --cluster app-cluster --service app-service --task-definition app --force-new-deployment'',
      ''        elif [ "rolling" == "canary" ]; then'',
      ''            echo "Performing Canary deployment (10% traffic)..."'',
      ''            aws ecs update-service --cluster app-cluster --service app-service --task-definition app --desired-count $(( 1 + 1 ))'',
      ''        else'',
      ''            aws ecs update-service --cluster app-cluster --service app-service --task-definition app --force-new-deployment'',
      ''        fi'']\<close>
    unfolding update_block_def m d
    by (simp add: force_deploy_line_def canary_line_def show_num_values)
  from C2_strategy_commands[OF h1 h2 h3] have
    "\<exists>s. generateDeploymentScript ?c ''app'' = Inr s \<and>
       sublist (update_block ?c ''app'') (lines_of s) \<and>
       count_list (lines_of s) (force_deploy_line ''app'') = 2 \<and>
       count_list (lines_of s) (canary_line ''app'' 1) = 1"
    unfolding p m by simp
  with h1 h2 h3 show ?thesis
    unfolding b by blast
qed

text \<open>
  The claim as stated fails: the AWS script for the rolling strategy holds the forced
  deployment twice, and the GCP script for the canary strategy is the script for the
  rolling strategy.
\<close>

theorem C2_counterexample:
  "(\<exists>s. generateDeploymentScript (cloud_of ''aws'' (aws_creds False None) base_deployment) ''app''
          = Inr s \<and>
        count_list (lines_of s) (force_deploy_line ''app'') = 2) \<and>
   generateDeploymentScript
     (with_strategy (cloud_of ''gcp'' (gcp_creds False) base_deployment) ''canary'') ''app'' =
   generateDeploymentScript
     (with_strategy (cloud_of ''gcp'' (gcp_creds False) base_deployment) ''rolling'') ''app''"
proof -
  let ?c = "cloud_of ''aws'' (aws_creds False None) base_deployment"
  let ?g = "cloud_of ''gcp'' (gcp_creds False) base_deployment"
  have h: "plain_config ?c ''app''"
    by (simp add: plain_cloud_of aws_creds_def js_str_def)
  have s: "generateDeploymentScript ?c ''app'' = Inr (generateAWSDeploymentScript ?c ''app'')"
    by (simp add: generateDeploymentScript_def cloud_of_def)
  have g: "provider ?g = ''gcp''"
    by (simp add: cloud_of_def)
  have "generateDeploymentScript (with_strategy ?g ''canary'') ''app'' =
      generateDeploymentScript (with_strategy ?g ''rolling'') ''app''"
    by (simp add: generateDeploymentScript_def g gcp_ignores_strategy)
  with aws_strategy_lines[OF h] s show ?thesis
    by simp
qed

section \<open>C3: an unsupported provider\<close>

lemma unsupported_provider:
  assumes "provider config \<notin> {''aws'', ''azure'', ''gcp'', ''digitalocean''}"
  shows "generateDeploymentScript config dockerImageName =
           Inl (Error (''Unsupported cloud provider: '' @ provider config))"
    and "generateTerraformConfig config dockerImageName = []"
  using assms by (simp_all add: generateDeploymentScript_def generateTerraformConfig_def)

text \<open>
  C3 at the provider tag \<open>heroku\<close>: the deployment-script generator throws, the
  infrastructure-manifest generator returns the empty text.
\<close>

theorem C3_unsupported_provider:
  "generateDeploymentScript (cloud_of ''heroku'' do_creds base_deployment) ''app'' =
     Inl (Error ''Unsupported cloud provider: heroku'') \<and>
   generateTerraformConfig (cloud_of ''heroku'' do_creds base_deployment) ''app'' = []"
  by (simp add: generateDeploymentScript_def generateTerraformConfig_def cloud_of_def)

section \<open>C5: instance counts\<close>








lemma provider_with_instances [simp]: "provider (with_instances config mn mx) = provider config"
  by (simp add: with_instances_def)




section \<open>C6: the reachable-URL block\<close>

lemma join_nl_tail:
  "2 \<le> length L \<Longrightarrow> suffix (last (butlast L) @ nl # last L) (join_nl L)"
proof (induction L rule: join_nl.induct)
  case 1
  then show ?case by simp
next
  case (2 l)
  then show ?case by simp
next
  case (3 l m ls)
  show ?case
  proof (cases ls)
    case Nil
    then show ?thesis
      by (simp add: join_nl.simps)
  next
    case (Cons k ks)
    with 3 have "suffix (last (butlast (m # ls)) @ nl # last (m # ls)) (join_nl (m # ls))"
      by simp
    then have "suffix (last (butlast (m # ls)) @ nl # last (m # ls))
        (l @ nl # join_nl (m # ls))"
      by (metis suffix_appendI suffix_ConsI)
    with Cons show ?thesis
      by (simp add: join_nl.simps)
  qed
qed

lemma join_nl_tail_text:
  assumes "2 \<le> length L" and "S = last (butlast L) @ nl # last L"
  shows "suffix S (join_nl L)"
  using join_nl_tail[OF assms(1)] assms(2) by simp

lemma aws_url_tail:
  \<open>suffix
     (''    '' @ generateDeployedUrlExport (deploymentConfig config)
          (aws_defaultUrlScript config dockerImageName) @ nl # ''    '')
     (generateAWSDeploymentScript config dockerImageName)\<close>
  unfolding generateAWSDeploymentScript_def
  by (rule join_nl_tail_text) simp_all

lemma azure_url_tail:
  \<open>suffix
     (''    '' @ generateDeployedUrlExport (deploymentConfig config)
          (azure_defaultUrlScript config dockerImageName) @ nl # ''    '')
     (generateAzureDeploymentScript config dockerImageName)\<close>
  unfolding generateAzureDeploymentScript_def
  by (rule join_nl_tail_text) simp_all

lemma gcp_url_tail:
  \<open>suffix
     (''    '' @ generateDeployedUrlExport (deploymentConfig config)
          (gcp_defaultUrlScript config dockerImageName) @ nl # ''    '')
     (generateGCPDeploymentScript config dockerImageName)\<close>
  unfolding generateGCPDeploymentScript_def
  by (rule join_nl_tail_text) simp_all

lemma do_url_tail:
  \<open>suffix
     (''    '' @ generateDeployedUrlExport (deploymentConfig config)
          (do_defaultUrlScript config dockerImageName) @ nl # ''    '')
     (generateDigitalOceanDeploymentScript config dockerImageName)\<close>
  unfolding generateDigitalOceanDeploymentScript_def
  by (rule join_nl_tail_text) simp_all

lemma url_block_fixed:
  assumes "useLoadBalancer dc" and "truthy_str (loadBalancerUrl dc)"
  shows \<open>''    '' @ generateDeployedUrlExport dc d @ nl # ''    '' =
    join_nl
     [''    '',
      ''    export DEPLOYED_URL="'' @ js_str (loadBalancerUrl dc) @ ''"'',
      ''    echo "DEPLOYED_URL=$DEPLOYED_URL" >> deployment.env'',
      ''    echo "Deployment completed. Reachable at Load Balancer: $DEPLOYED_URL"'',
      ''    '']\<close>
  using assms by (simp add: generateDeployedUrlExport_def join_nl.simps)

lemma url_block_lookup:
  assumes "\<not> (useLoadBalancer dc \<and> truthy_str (loadBalancerUrl dc))"
      and "''    '' @ d = join_nl R" and "R \<noteq> []"
  shows \<open>''    '' @ generateDeployedUrlExport dc d @ nl # ''    '' =
    join_nl
     (''    '' # R @
      [''    echo "DEPLOYED_URL=$DEPLOYED_URL" >> deployment.env'',
       ''    echo "Deployment completed. Reachable at: $DEPLOYED_URL"'',
       ''    ''])\<close>
proof -
  have j: "join_nl (xs @ [a, b, c]) = join_nl xs @ nl # a @ nl # b @ nl # c"
    if "xs \<noteq> []" for xs a b c
    using join_nl_append[OF that, of "[a, b, c]"] by (simp add: join_nl.simps)
  have k: "join_nl (''    '' # R) = ''    '' @ nl # join_nl R"
    using assms(3) by (cases R) (simp_all add: join_nl.simps)
  have \<open>join_nl (''    '' # R @
      [''    echo "DEPLOYED_URL=$DEPLOYED_URL" >> deployment.env'',
       ''    echo "Deployment completed. Reachable at: $DEPLOYED_URL"'',
       ''    '']) =
    (''    '' @ nl # join_nl R) @ nl #
      ''    echo "DEPLOYED_URL=$DEPLOYED_URL" >> deployment.env'' @ nl #
      ''    echo "Deployment completed. Reachable at: $DEPLOYED_URL"'' @ nl # ''    ''\<close>
    using j[of "''    '' # R"] unfolding k by simp
  moreover have \<open>''    '' @ generateDeployedUrlExport dc d @ nl # ''    '' =
    (''    '' @ nl # (''    '' @ d)) @ nl #
      ''    echo "DEPLOYED_URL=$DEPLOYED_URL" >> deployment.env'' @ nl #
      ''    echo "Deployment completed. Reachable at: $DEPLOYED_URL"'' @ nl # ''    ''\<close>
    using assms(1) by (simp add: generateDeployedUrlExport_def join_nl.simps)
  ultimately show ?thesis
    unfolding assms(2) by simp
qed

lemma url_export_ignores_lookup:
  "useLoadBalancer dc \<Longrightarrow> truthy_str (loadBalancerUrl dc) \<Longrightarrow>
   generateDeployedUrlExport dc d = generateDeployedUrlExport dc d'"
  by (simp add: generateDeployedUrlExport_def)

lemma url_tail_cases:
  assumes "suffix (''    '' @ generateDeployedUrlExport dc d @ nl # ''    '') s"
      and "''    '' @ d = join_nl R" and "R \<noteq> []"
  shows \<open>if useLoadBalancer dc \<and> truthy_str (loadBalancerUrl dc)
     then
       suffix
         (join_nl
           [''    '',
            ''    export DEPLOYED_URL="'' @ js_str (loadBalancerUrl dc) @ ''"'',
            ''    echo "DEPLOYED_URL=$DEPLOYED_URL" >> deployment.env'',
            ''    echo "Deployment completed. Reachable at Load Balancer: $DEPLOYED_URL"'',
            ''    ''])
         s
     else
       suffix
         (join_nl
           (''    '' # R @
            [''    echo "DEPLOYED_URL=$DEPLOYED_URL" >> deployment.env'',
             ''    echo "Deployment completed. Reachable at: $DEPLOYED_URL"'',
             ''    '']))
         s\<close>
proof (cases "useLoadBalancer dc \<and> truthy_str (loadBalancerUrl dc)")
  case True
  then have l: "useLoadBalancer dc" "truthy_str (loadBalancerUrl dc)"
    by simp_all
  from assms(1) show ?thesis
    unfolding url_block_fixed[OF l] by (subst if_P[OF True])
next
  case False
  from assms(1) show ?thesis
    unfolding url_block_lookup[OF False assms(2,3)] by (subst if_not_P[OF False])
qed

lemma url_tail:
  assumes "provider config \<in> {''aws'', ''azure'', ''gcp'', ''digitalocean''}"
  shows \<open>\<exists>s. generateDeploymentScript config dockerImageName = Inr s \<and>
    (if useLoadBalancer (deploymentConfig config) \<and>
        truthy_str (loadBalancerUrl (deploymentConfig config))
     then
       suffix
         (join_nl
           [''    '',
            ''    export DEPLOYED_URL="'' @ js_str (loadBalancerUrl (deploymentConfig config)) @ ''"'',
            ''    echo "DEPLOYED_URL=$DEPLOYED_URL" >> deployment.env'',
            ''    echo "Deployment completed. Reachable at Load Balancer: $DEPLOYED_URL"'',
            ''    ''])
         s
     else
       suffix
         (join_nl
           (''    '' #
            runtime_lookup (provider config) dockerImageName
              (show_num (port (deploymentConfig config))) @
            [''    echo "DEPLOYED_URL=$DEPLOYED_URL" >> deployment.env'',
             ''    echo "Deployment completed. Reachable at: $DEPLOYED_URL"'',
             ''    '']))
         s)\<close>
proof -
  consider "provider config = ''aws''" | "provider config = ''azure''"
    | "provider config = ''gcp''" | "provider config = ''digitalocean''"
    using assms by auto
  then show ?thesis
  proof cases
    case 1
    have d: "''    '' @ aws_defaultUrlScript config dockerImageName =
        join_nl (runtime_lookup (provider config) dockerImageName (show_num (port (deploymentConfig config))))"
      and r: "runtime_lookup (provider config) dockerImageName (show_num (port (deploymentConfig config))) \<noteq> []"
      by (simp_all add: 1 aws_defaultUrlScript_def runtime_lookup_def join_nl.simps)
    have g: "generateDeploymentScript config dockerImageName =
        Inr (generateAWSDeploymentScript config dockerImageName)"
      by (simp add: generateDeploymentScript_def 1)
    show ?thesis
      by (intro exI conjI, rule g, rule url_tail_cases[OF aws_url_tail d r])
  next
    case 2
    have d: "''    '' @ azure_defaultUrlScript config dockerImageName =
        join_nl (runtime_lookup (provider config) dockerImageName (show_num (port (deploymentConfig config))))"
      and r: "runtime_lookup (provider config) dockerImageName (show_num (port (deploymentConfig config))) \<noteq> []"
      by (simp_all add: 2 azure_defaultUrlScript_def runtime_lookup_def join_nl.simps)
    have g: "generateDeploymentScript config dockerImageName =
        Inr (generateAzureDeploymentScript config dockerImageName)"
      by (simp add: generateDeploymentScript_def 2)
    show ?thesis
      by (intro exI conjI, rule g, rule url_tail_cases[OF azure_url_tail d r])
  next
    case 3
    have d: "''    '' @ gcp_defaultUrlScript config dockerImageName =
        join_nl (runtime_lookup (provider config) dockerImageName (show_num (port (deploymentConfig config))))"
      and r: "runtime_lookup (provider config) dockerImageName (show_num (port (deploymentConfig config))) \<noteq> []"
      by (simp_all add: 3 gcp_defaultUrlScript_def runtime_lookup_def join_nl.simps)
    have g: "generateDeploymentScript config dockerImageName =
        Inr (generateGCPDeploymentScript config dockerImageName)"
      by (simp add: generateDeploymentScript_def 3)
    show ?thesis
      by (intro exI conjI, rule g, rule url_tail_cases[OF gcp_url_tail d r])
  next
    case 4
    have d: "''    '' @ do_defaultUrlScript config dockerImageName =
        join_nl (runtime_lookup (provider config) dockerImageName
          (show_num (port (deploymentConfig config))))"
      and r: "runtime_lookup (provider config) dockerImageName
          (show_num (port (deploymentConfig config))) \<noteq> []"
      by (simp_all add: 4 do_defaultUrlScript_def runtime_lookup_def join_nl.simps)
    have g: "generateDeploymentScript config dockerImageName =
        Inr (generateDigitalOceanDeploymentScript config dockerImageName)"
      by (simp add: generateDeploymentScript_def 4)
    show ?thesis
      by (intro exI conjI, rule g, rule url_tail_cases[OF do_url_tail d r])
  qed
qed

text \<open>
  C6. For each of the four providers the text of the script ends with the URL-resolution
  block. With \<open>useLoadBalancer\<close> and a (non-empty) \<open>loadBalancerUrl\<close> the block is the
  assignment of the configured URL to \<open>DEPLOYED_URL\<close> and nothing else, the same text
  whatever runtime lookup the provider passes; otherwise, in particular when
  \<open>useLoadBalancer\<close> is false, it holds the lines of the provider's runtime lookup (with
  the port digit for digit when it is a safe integer). In both cases the line that appends
  \<open>DEPLOYED_URL=$DEPLOYED_URL\<close> to \<open>deployment.env\<close> follows.
\<close>

theorem C6_url_resolution:
  assumes "provider config \<in> {''aws'', ''azure'', ''gcp'', ''digitalocean''}"
  shows \<open>\<exists>s. generateDeploymentScript config dockerImageName = Inr s \<and>
    (if useLoadBalancer (deploymentConfig config) \<and>
        truthy_str (loadBalancerUrl (deploymentConfig config))
     then
       suffix
         (join_nl
           [''    '',
            ''    export DEPLOYED_URL="'' @ js_str (loadBalancerUrl (deploymentConfig config)) @ ''"'',
            ''    echo "DEPLOYED_URL=$DEPLOYED_URL" >> deployment.env'',
            ''    echo "Deployment completed. Reachable at Load Balancer: $DEPLOYED_URL"'',
            ''    ''])
         s \<and>
       (\<forall>d d'. generateDeployedUrlExport (deploymentConfig config) d =
                generateDeployedUrlExport (deploymentConfig config) d')
     else
       (\<exists>portText.
          (isSafeInteger (port (deploymentConfig config)) \<longrightarrow>
             portText = show_num (port (deploymentConfig config))) \<and>
          suffix
            (join_nl
              (''    '' #
               runtime_lookup (provider config) dockerImageName portText @
               [''    echo "DEPLOYED_URL=$DEPLOYED_URL" >> deployment.env'',
                ''    echo "Deployment completed. Reachable at: $DEPLOYED_URL"'',
                ''    '']))
            s))\<close>
proof -
  from url_tail[OF assms, of dockerImageName] obtain s where
    s: "generateDeploymentScript config dockerImageName = Inr s" and
    t: \<open>if useLoadBalancer (deploymentConfig config) \<and>
        truthy_str (loadBalancerUrl (deploymentConfig config))
     then
       suffix
         (join_nl
           [''    '',
            ''    export DEPLOYED_URL="'' @ js_str (loadBalancerUrl (deploymentConfig config)) @ ''"'',
            ''    echo "DEPLOYED_URL=$DEPLOYED_URL" >> deployment.env'',
            ''    echo "Deployment completed. Reachable at Load Balancer: $DEPLOYED_URL"'',
            ''    ''])
         s
     else
       suffix
         (join_nl
           (''    '' #
            runtime_lookup (provider config) dockerImageName
              (show_num (port (deploymentConfig config))) @
            [''    echo "DEPLOYED_URL=$DEPLOYED_URL" >> deployment.env'',
             ''    echo "Deployment completed. Reachable at: $DEPLOYED_URL"'',
             ''    '']))
         s\<close>
    by blast
  show ?thesis
  proof (cases "useLoadBalancer (deploymentConfig config) \<and>
        truthy_str (loadBalancerUrl (deploymentConfig config))")
    case True
    with t s show ?thesis
      by (auto intro: url_export_ignores_lookup)
  next
    case False
    with t s show ?thesis
      by auto
  qed
qed

theorem C6_url_resolution_witness:
  \<open>provider (cloud_of ''azure'' (azure_creds False) lb_deployment)
     \<in> {''aws'', ''azure'', ''gcp'', ''digitalocean''} \<and>
   provider (cloud_of ''azure'' (azure_creds False) base_deployment)
     \<in> {''aws'', ''azure'', ''gcp'', ''digitalocean''} \<and>
   isSafeInteger (port (deploymentConfig (cloud_of ''azure'' (azure_creds False) base_deployment))) \<and>
   (\<exists>s. generateDeploymentScript (cloud_of ''azure'' (azure_creds False) lb_deployment) ''app''
          = Inr s \<and>
        suffix
         (join_nl
           [''    '',
            ''    export DEPLOYED_URL="https://api.example.com"'',
            ''    echo "DEPLOYED_URL=$DEPLOYED_URL" >> deployment.env'',
            ''    echo "Deployment completed. Reachable at Load Balancer: $DEPLOYED_URL"'',
            ''    ''])
         s) \<and>
   (\<exists>s. generateDeploymentScript (cloud_of ''azure'' (azure_creds False) base_deployment) ''app''
          = Inr s \<and>
        suffix
         (join_nl
           [''    '',
            ''    export DEPLOYED_URL="http://app.${AZURE_REGION}.azurecontainer.io:3000"'',
            ''    echo "DEPLOYED_URL=$DEPLOYED_URL" >> deployment.env'',
            ''    echo "Deployment completed. Reachable at: $DEPLOYED_URL"'',
            ''    ''])
         s)\<close>
proof -
  let ?c = "cloud_of ''azure'' (azure_creds False) lb_deployment"
  let ?b = "cloud_of ''azure'' (azure_creds False) base_deployment"
  have h1: "provider ?c \<in> {''aws'', ''azure'', ''gcp'', ''digitalocean''}"
    and h2: "provider ?b \<in> {''aws'', ''azure'', ''gcp'', ''digitalocean''}"
    by (simp_all add: cloud_of_def)
  have pb: "provider ?b = ''azure''"
    by (simp add: cloud_of_def)
  have u: "js_str (loadBalancerUrl (deploymentConfig ?c)) = ''https://api.example.com''"
    and l: "useLoadBalancer (deploymentConfig ?c) \<and> truthy_str (loadBalancerUrl (deploymentConfig ?c))"
    by (simp_all add: cloud_of_def lb_deployment_def base_deployment_def js_str_def
        truthy_str_def)
  have n: "\<not> (useLoadBalancer (deploymentConfig ?b) \<and>
      truthy_str (loadBalancerUrl (deploymentConfig ?b)))"
    and q: "port (deploymentConfig ?b) = 3000"
    by (simp_all add: cloud_of_def base_deployment_def)
  have h3: "isSafeInteger (port (deploymentConfig ?b))"
    unfolding q by (simp add: isSafeInteger_def)
  have a: \<open>\<exists>s. generateDeploymentScript ?c ''app'' = Inr s \<and>
        suffix
         (join_nl
           [''    '',
            ''    export DEPLOYED_URL="https://api.example.com"'',
            ''    echo "DEPLOYED_URL=$DEPLOYED_URL" >> deployment.env'',
            ''    echo "Deployment completed. Reachable at Load Balancer: $DEPLOYED_URL"'',
            ''    ''])
         s\<close>
    using C6_url_resolution[OF h1, of "''app''"] l unfolding u by auto
  have b: \<open>\<exists>s. generateDeploymentScript ?b ''app'' = Inr s \<and>
        suffix
         (join_nl
           [''    '',
            ''    export DEPLOYED_URL="http://app.${AZURE_REGION}.azurecontainer.io:3000"'',
            ''    echo "DEPLOYED_URL=$DEPLOYED_URL" >> deployment.env'',
            ''    echo "Deployment completed. Reachable at: $DEPLOYED_URL"'',
            ''    ''])
         s\<close>
    using C6_url_resolution[OF h2, of "''app''"] n h3
    unfolding pb q by (auto simp: runtime_lookup_def show_num_values)
  from h1 h2 h3 a b show ?thesis
    by blast
qed

section \<open>C7: the Telegram routine\<close>

lemma split_on_last_two:
  assumes "c \<notin> set tok" and "c \<notin> set chat"
  shows "split_on c (pre @ c # tok @ c # chat) = split_on c pre @ [tok, chat]"
  using assms by (simp add: split_on_append_sep split_on_free)

lemma js_index_last_two:
  "js_index (xs @ [a, b]) (int (length (xs @ [a, b])) - 2) = Some a"
  "js_index (xs @ [a, b]) (int (length (xs @ [a, b])) - 1) = Some b"
proof -
  have i: "nat (int (length (xs @ [a, b])) - 2) = length xs"
    and j: "nat (int (length (xs @ [a, b])) - 1) = Suc (length xs)"
    by simp_all
  have "(xs @ [a, b]) ! length xs = a" and "(xs @ [a, b]) ! Suc (length xs) = b"
    by (simp_all add: nth_append)
  then show "js_index (xs @ [a, b]) (int (length (xs @ [a, b])) - 2) = Some a"
    and "js_index (xs @ [a, b]) (int (length (xs @ [a, b])) - 1) = Some b"
    unfolding js_index_def i j by simp_all
qed

lemma telegram_two_segments:
  assumes "CHR ''/'' \<notin> set tok" and "CHR ''/'' \<notin> set chat"
  shows "generateTelegramNotification (pre @ ''/'' @ tok @ ''/'' @ chat) =
         telegram_routine (Some tok) (Some chat)"
proof -
  have "split_on CHR ''/'' (pre @ ''/'' @ tok @ ''/'' @ chat) =
      split_on CHR ''/'' pre @ [tok, chat]"
    using split_on_last_two[OF assms, of pre] by simp
  then show ?thesis
    unfolding generateTelegramNotification_def Let_def
    by (simp only: js_index_last_two)
qed

lemma telegram_no_slash:
  assumes "CHR ''/'' \<notin> set w"
  shows "generateTelegramNotification w = telegram_routine None (Some w)"
  using assms
  by (simp add: generateTelegramNotification_def split_on_free js_index_def)

lemma telegram_routine_lines:
  assumes "nl \<notin> set (js_str botToken)" and "nl \<notin> set (js_str chatId)"
  shows "telegram_curl_line (js_str botToken) \<in> set (lines_of (telegram_routine botToken chatId))"
    and "telegram_chat_line (js_str chatId) \<in> set (lines_of (telegram_routine botToken chatId))"
  using assms
  by (simp_all add: telegram_routine_def telegram_curl_line_def telegram_chat_line_def
      lines_simps)

lemma foldl_append_concat:
  "foldl (\<lambda>acc x. acc @ f x) a xs = a @ concat (map f xs)"
  by (induction xs arbitrary: a) simp_all

lemma sublist_concat_map:
  "x \<in> set xs \<Longrightarrow> sublist (f x) (concat (map f xs))"
proof (induction xs)
  case Nil
  then show ?case by simp
next
  case (Cons y ys)
  show ?case
  proof (cases "x = y")
    case True
    then show ?thesis by simp
  next
    case False
    with Cons have "sublist (f x) (concat (map f ys))"
      by simp
    then show ?thesis
      by (auto simp: sublist_def) (metis append.assoc)
  qed
qed

lemma telegram_in_script:
  assumes "platform \<in> set (nc_platforms config)"
      and "np_type platform = ''telegram''"
      and "np_webhook platform = Some w" and "w \<noteq> []"
  shows "sublist (generateTelegramNotification w) (generateNotificationScript config)"
proof -
  have "platform_script platform = generateTelegramNotification w"
    using assms(2-4) by (simp add: platform_script_def)
  with sublist_concat_map[OF assms(1), of platform_script]
  have "sublist (generateTelegramNotification w)
      (concat (map platform_script (nc_platforms config)))"
    by simp
  then show ?thesis
    unfolding generateNotificationScript_def foldl_append_concat
    by (auto simp: sublist_def) (metis append.assoc)
qed

text \<open>
  C7, as the code has it. The routine is generated for every webhook: nothing fails. The
  webhook is split at every slash, and the last two pieces are taken as they are for the
  bot token and the chat id: for a webhook that ends in \<open>/tok/chat\<close> the call targets
  \<open>https://api.telegram.org/bot\<close> followed by \<open>tok\<close>, with chat id \<open>chat\<close>; a webhook
  without a slash gives the token text \<open>undefined\<close>. The routine of a Telegram platform
  with a non-empty webhook is part of the notification script.
\<close>

theorem C7_telegram_extraction:
  assumes "CHR ''/'' \<notin> set tok" and "CHR ''/'' \<notin> set chat"
      and "nl \<notin> set tok" and "nl \<notin> set chat"
  shows "generateTelegramNotification (pre @ ''/'' @ tok @ ''/'' @ chat) =
           telegram_routine (Some tok) (Some chat) \<and>
         telegram_curl_line tok
           \<in> set (lines_of (generateTelegramNotification (pre @ ''/'' @ tok @ ''/'' @ chat))) \<and>
         telegram_chat_line chat
           \<in> set (lines_of (generateTelegramNotification (pre @ ''/'' @ tok @ ''/'' @ chat))) \<and>
         generateTelegramNotification chat = telegram_routine None (Some chat) \<and>
         telegram_curl_line ''undefined'' \<in> set (lines_of (generateTelegramNotification chat)) \<and>
         (platform \<in> set (nc_platforms config) \<and> np_type platform = ''telegram'' \<and>
          np_webhook platform = Some (pre @ ''/'' @ tok @ ''/'' @ chat) \<longrightarrow>
            sublist (generateTelegramNotification (pre @ ''/'' @ tok @ ''/'' @ chat))
              (generateNotificationScript config))"
proof -
  have a: "generateTelegramNotification (pre @ ''/'' @ tok @ ''/'' @ chat) =
      telegram_routine (Some tok) (Some chat)"
    by (rule telegram_two_segments[OF assms(1,2)])
  have b: "generateTelegramNotification chat = telegram_routine None (Some chat)"
    by (rule telegram_no_slash[OF assms(2)])
  have l1: "telegram_curl_line tok \<in> set (lines_of (telegram_routine (Some tok) (Some chat)))"
    and l2: "telegram_chat_line chat \<in> set (lines_of (telegram_routine (Some tok) (Some chat)))"
    using telegram_routine_lines[of "Some tok" "Some chat"] assms(3,4)
    by (simp_all add: js_str_def)
  have l3: "telegram_curl_line ''undefined'' \<in> set (lines_of (telegram_routine None (Some chat)))"
    using telegram_routine_lines(1)[of None "Some chat"] assms(4)
    by (simp add: js_str_def)
  have n: "pre @ ''/'' @ tok @ ''/'' @ chat \<noteq> []"
    by simp
  from a b l1 l2 l3 telegram_in_script[OF _ _ _ n] show ?thesis
    by auto
qed

theorem C7_telegram_extraction_witness:
  "CHR ''/'' \<notin> set ''123:ABC'' \<and> CHR ''/'' \<notin> set ''9876'' \<and>
   nl \<notin> set ''123:ABC'' \<and> nl \<notin> set ''9876'' \<and>
   generateTelegramNotification (''https://host'' @ ''/'' @ ''123:ABC'' @ ''/'' @ ''9876'') =
     telegram_routine (Some ''123:ABC'') (Some ''9876'') \<and>
   telegram_curl_line ''123:ABC'' \<in> set (lines_of
     (generateTelegramNotification (''https://host'' @ ''/'' @ ''123:ABC'' @ ''/'' @ ''9876''))) \<and>
   sublist (generateTelegramNotification (''https://host'' @ ''/'' @ ''123:ABC'' @ ''/'' @ ''9876''))
     (generateNotificationScript
        (telegram_notifications (''https://host'' @ ''/'' @ ''123:ABC'' @ ''/'' @ ''9876'')))"
proof -
  let ?w = "''https://host'' @ ''/'' @ ''123:ABC'' @ ''/'' @ ''9876''"
  let ?p = "\<lparr>np_type = ''telegram'', np_webhook = Some ?w, np_apiKey = None\<rparr>"
  have h: "CHR ''/'' \<notin> set ''123:ABC''" "CHR ''/'' \<notin> set ''9876''"
      "nl \<notin> set ''123:ABC''" "nl \<notin> set ''9876''"
    by simp_all
  have p: "?p \<in> set (nc_platforms (telegram_notifications ?w)) \<and> np_type ?p = ''telegram'' \<and>
      np_webhook ?p = Some ?w"
    by (simp add: telegram_notifications_def)
  from C7_telegram_extraction[OF h, of "''https://host''" ?p "telegram_notifications ?w"] h p
  show ?thesis
    by blast
qed

text \<open>
  The claim as stated fails. For the webhook \<open>https://host/bot123:ABC/9876\<close> the token is
  \<open>bot123:ABC\<close>, so that the call targets \<open>.../botbot123:ABC/sendMessage\<close>; and for the
  webhook \<open>https://host/9876\<close>, with one path segment, a routine is generated, with the
  host as the token.
\<close>

theorem C7_counterexample:
  "generateTelegramNotification ''https://host/bot123:ABC/9876'' =
     telegram_routine (Some ''bot123:ABC'') (Some ''9876'') \<and>
   telegram_curl_line ''bot123:ABC''
     \<in> set (lines_of (generateTelegramNotification ''https://host/bot123:ABC/9876'')) \<and>
   telegram_curl_line ''123:ABC''
     \<notin> set (lines_of (generateTelegramNotification ''https://host/bot123:ABC/9876'')) \<and>
   generateTelegramNotification ''https://host/9876'' =
     telegram_routine (Some ''host'') (Some ''9876'')"
proof -
  have a: "generateTelegramNotification ''https://host/bot123:ABC/9876'' =
      telegram_routine (Some ''bot123:ABC'') (Some ''9876'')"
    using telegram_two_segments[of "''bot123:ABC''" "''9876''" "''https://host''"] by simp
  have b: "generateTelegramNotification ''https://host/9876'' =
      telegram_routine (Some ''host'') (Some ''9876'')"
    using telegram_two_segments[of "''host''" "''9876''" "''https:/''"] by simp
  have c: "telegram_curl_line ''bot123:ABC''
      \<in> set (lines_of (telegram_routine (Some ''bot123:ABC'') (Some ''9876'')))"
    using telegram_routine_lines(1)[of "Some ''bot123:ABC''" "Some ''9876''"]
    by (simp add: js_str_def)
  have d: "telegram_curl_line ''123:ABC''
      \<notin> set (lines_of (telegram_routine (Some ''bot123:ABC'') (Some ''9876'')))"
    by (simp add: telegram_routine_def telegram_curl_line_def js_str_def lines_simps)
  from a b c d show ?thesis
    by simp
qed

section \<open>C8: the lifecycle wrapper\<close>

lemma post_text_eq: "generatePostStageNotifications = post_text"
  by (simp add: generatePostStageNotifications_def post_text_def post_section_def
      post_steps_def)

lemma post_sections_in_text:
  "set (map (step_text ''SUCCESS'') post_steps) \<subseteq> set (lines_of generatePostStageNotifications)"
  "set (map (step_text ''FAILURE'') post_steps) \<subseteq> set (lines_of generatePostStageNotifications)"
  "set (map (step_text ''UNSTABLE'') post_steps) \<subseteq> set (lines_of generatePostStageNotifications)"
  by (simp_all add: generatePostStageNotifications_def post_steps_def lines_simps)

lemma run_steps_try:
  "\<forall>s\<in>set steps. \<exists>f. s = TryCall f \<Longrightarrow> run_steps fails steps = map step_name steps"
proof (induction steps)
  case Nil
  then show ?case by simp
next
  case (Cons s steps)
  then obtain f where "s = TryCall f"
    by auto
  with Cons show ?case
    by simp
qed

text \<open>
  C8, as the code has it. The wrapper is the text of \<open>post_text\<close>: every channel call stands
  in its own \<open>try/catch\<close>, the e-mail call stands first and bare. Whatever channel calls
  fail, the e-mail routine and all four channel routines are invoked, as long as the e-mail
  call itself does not fail; the e-mail routine is invoked in every case.
\<close>

theorem C8_channel_failures_isolated:
  "generatePostStageNotifications = post_text \<and>
   hd (run_steps fails post_steps) = ''sendEmailNotification'' \<and>
   (\<not> fails ''sendEmailNotification'' \<longrightarrow>
      run_steps fails post_steps =
        [''sendEmailNotification'', ''sendSlackNotification'', ''sendDiscordNotification'',
         ''sendTeamsNotification'', ''sendTelegramNotification''])"
proof -
  have "run_steps fails (tl post_steps) = map step_name (tl post_steps)"
    by (rule run_steps_try) (simp add: post_steps_def)
  then show ?thesis
    by (simp add: post_text_eq post_steps_def)
qed

theorem C8_channel_failures_isolated_witness:
  "\<not> (\<lambda>f. f \<noteq> ''sendEmailNotification'') ''sendEmailNotification'' \<and>
   run_steps (\<lambda>f. f \<noteq> ''sendEmailNotification'') post_steps =
     [''sendEmailNotification'', ''sendSlackNotification'', ''sendDiscordNotification'',
      ''sendTeamsNotification'', ''sendTelegramNotification'']"
  using C8_channel_failures_isolated[of "\<lambda>f. f \<noteq> ''sendEmailNotification''"]
  by simp

text \<open>
  The claim as stated fails: the e-mail call is not isolated. When it throws, no channel
  routine is invoked.
\<close>

theorem C8_counterexample:
  "step_text ''SUCCESS'' (Call ''sendEmailNotification'')
     \<in> set (lines_of generatePostStageNotifications) \<and>
   run_steps (\<lambda>f. f = ''sendEmailNotification'') post_steps = [''sendEmailNotification'']"
  using post_sections_in_text(1)
  by (simp add: post_steps_def)

section \<open>C9: the compose lookup\<close>

lemma map_of_obj_set: "map_of (obj_set kvs k v) = (map_of kvs)(k \<mapsto> v)"
  by (induction kvs k v rule: obj_set.induct) auto

lemma find_append_cases:
  "find P (xs @ ys) = (case find P xs of None \<Rightarrow> find P ys | Some x \<Rightarrow> Some x)"
  by (induction xs) auto

lemma find_SomeD: "find P xs = Some x \<Longrightarrow> x \<in> set xs \<and> P x"
  by (induction xs) (auto split: if_splits)

lemma map_of_js_assign:
  "map_of (js_assign kvs k v) =
     (if k = ''__proto__'' then map_of kvs else (map_of kvs)(k \<mapsto> v))"
  by (simp add: js_assign_def map_of_obj_set)

lemma map_of_services_step:
  "map_of (foldl (\<lambda>services service.
              if requiresInfrastructure service
              then js_assign services (getServiceName service) (getServiceConfig service)
              else services) init svcs) k =
   (if k = ''__proto__'' then map_of init k
    else
     (case find (\<lambda>s. requiresInfrastructure s \<and> getServiceName s = k) (rev svcs) of
        Some s \<Rightarrow> Some (getServiceConfig s)
      | None \<Rightarrow> map_of init k))"
proof (induction svcs arbitrary: init)
  case Nil
  then show ?case by simp
next
  case (Cons s svcs)
  show ?case
    by (simp add: Cons map_of_js_assign find_append_cases split: option.splits)
qed

lemma find_distinct_name:
  assumes "service \<in> set svcs" and "requiresInfrastructure service"
      and "distinct (map getServiceName (filter requiresInfrastructure svcs))"
  shows "find (\<lambda>s. requiresInfrastructure s \<and> getServiceName s = getServiceName service)
           (rev svcs) = Some service"
proof -
  let ?P = "\<lambda>s. requiresInfrastructure s \<and> getServiceName s = getServiceName service"
  have "service \<in> set (rev svcs)" "?P service"
    using assms(1,2) by simp_all
  then obtain s where s: "find ?P (rev svcs) = Some s"
    by (cases "find ?P (rev svcs)") (auto simp: find_None_iff)
  from find_SomeD[OF s]
  have "s \<in> set svcs" "requiresInfrastructure s" "getServiceName s = getServiceName service"
    by simp_all
  then have "s \<in> set (filter requiresInfrastructure svcs)"
      "service \<in> set (filter requiresInfrastructure svcs)"
      "getServiceName s = getServiceName service"
    using assms(1,2) by simp_all
  with assms(3) have "s = service"
    by (meson distinct_map inj_onD)
  with s show ?thesis
    by simp
qed

lemma compose_services_entry:
  assumes "service \<in> set (externalServices (project config))"
      and "requiresInfrastructure service"
      and "distinct (map getServiceName
             (filter requiresInfrastructure (externalServices (project config))))"
      and "getServiceName service \<noteq> ''__proto__''"
  shows "map_of (compose_services config) (getServiceName service) =
         Some (getServiceConfig service)"
  unfolding compose_services_def map_of_services_step
  by (simp add: find_distinct_name[OF assms(1,2,3)] assms(4))

lemma compose_services_proto: "map_of (compose_services config) ''__proto__'' = None"
  unfolding compose_services_def map_of_services_step by simp

lemma set_entries: "set (entries obj) = set obj"
  by (auto simp: entries_def)

lemma static_keys_entries:
  "entries [(''version'', v), (''services'', s)] = [(''version'', v), (''services'', s)]"
  "entries [(''image'', i), (''environment'', e), (''ports'', p)] =
     [(''image'', i), (''environment'', e), (''ports'', p)]"
  "entries [(''image'', i), (''command'', c)] = [(''image'', i), (''command'', c)]"
  by (simp_all add: entries_def is_array_index_def is_digit_def)

text \<open>The text of one entry of the \<open>services\<close> mapping in the manifest.\<close>

lemma yamlify_entry:
  assumes "(k, YObj v) \<in> set (entries obj)"
  shows "sublist (replicate indent CHR '' '' @ k @ '':'' @ [nl] @ yamlify v (indent + 2))
           (yamlify obj indent)"
proof -
  have \<open>sublist
     ((\<lambda>kv.
      (case snd kv of
         YObj v \<Rightarrow> replicate indent CHR '' '' @ fst kv @ '':'' @ [nl] @ yamlify v (indent + 2)
       | YArr items \<Rightarrow>
           replicate indent CHR '' '' @ fst kv @ '':'' @ [nl] @
           concat (map (\<lambda>item. replicate indent CHR '' '' @ ''  - "'' @ item @ ''"'' @ [nl]) items)
       | YStr s \<Rightarrow> replicate indent CHR '' '' @ fst kv @ '': "'' @ s @ ''"'' @ [nl])) (k, YObj v))
     (concat (map (\<lambda>kv.
      (case snd kv of
         YObj v \<Rightarrow> replicate indent CHR '' '' @ fst kv @ '':'' @ [nl] @ yamlify v (indent + 2)
       | YArr items \<Rightarrow>
           replicate indent CHR '' '' @ fst kv @ '':'' @ [nl] @
           concat (map (\<lambda>item. replicate indent CHR '' '' @ ''  - "'' @ item @ ''"'' @ [nl]) items)
       | YStr s \<Rightarrow> replicate indent CHR '' '' @ fst kv @ '': "'' @ s @ ''"'' @ [nl]))
     (entries obj)))\<close>
    by (rule sublist_concat_map[OF assms])
  then show ?thesis
    by (subst yamlify.simps[of obj indent]) simp
qed

lemma sublist_trans:
  assumes "sublist xs ys" and "sublist ys zs"
  shows "sublist xs zs"
proof -
  from assms obtain a b c d where "ys = a @ xs @ b" and "zs = c @ ys @ d"
    by (auto simp: sublist_def)
  then have "zs = (c @ a) @ xs @ (b @ d)"
    by simp
  then show ?thesis
    unfolding sublist_def by blast
qed

lemma replicate_two: "replicate 2 c = [c, c]"
  by (simp add: numeral_2_eq_2)

lemma replicate_four: "replicate 4 c = [c, c, c, c]"
  by (simp add: eval_nat_numeral)

lemma compose_entry_text:
  assumes "map_of (compose_services config) k = Some (YObj v)"
  shows "sublist (''  '' @ k @ '':'' @ [nl] @ yamlify v 4) (generateDockerCompose config)"
proof -
  have "(k, YObj v) \<in> set (entries (compose_services config))"
    using map_of_SomeD[OF assms] by (simp add: set_entries)
  from yamlify_entry[OF this, of 2]
  have s: "sublist (''  '' @ k @ '':'' @ [nl] @ yamlify v 4)
      (yamlify (compose_services config) 2)"
    by (simp add: replicate_two del: add_2_eq_Suc add_2_eq_Suc')
  have "(''services'', YObj (compose_services config))
      \<in> set (entries [(''version'', YStr ''3.8''), (''services'', YObj (compose_services config))])"
    by (simp add: set_entries)
  from yamlify_entry[OF this, of 0]
  have "sublist (''services:'' @ [nl] @ yamlify (compose_services config) 2)
      (generateDockerCompose config)"
    by (simp add: generateDockerCompose_def del: add_2_eq_Suc add_2_eq_Suc')
  moreover have "sublist (yamlify (compose_services config) 2)
      (''services:'' @ [nl] @ yamlify (compose_services config) 2)"
    using sublist_append_leftI[of "yamlify (compose_services config) 2" "''services:'' @ [nl]"]
    by simp
  ultimately have "sublist (yamlify (compose_services config) 2) (generateDockerCompose config)"
    using sublist_trans by blast
  from sublist_trans[OF s this] show ?thesis .
qed

lemma lower_postgresql: "toLowerCase ''PostgreSQL'' = ''postgresql''"
  by code_simp

text \<open>
  C9, as the code has it. The lookup is made on the lower-cased product identifier. An
  identifier that lower-cases to \<open>postgresql\<close> gets the \<open>postgres:latest\<close> entry, and an
  identifier whose lower-cased form is outside the table gets the placeholder. When the
  services that require infrastructure have distinct derived names (the names being
  ASCII, where the model of the derivation is the code), the manifest holds, under the
  derived name of each of them other than \<open>__proto__\<close>, the entry the lookup chose; under
  \<open>__proto__\<close> it holds no entry.
\<close>

theorem C9_compose_lookup:
  assumes "service \<in> set (externalServices (project config))"
      and "requiresInfrastructure service"
      and "distinct (map getServiceName
             (filter requiresInfrastructure (externalServices (project config))))"
      and "list_all (\<lambda>s. ascii (es_name s))
             (filter requiresInfrastructure (externalServices (project config)))"
      and "getServiceName service \<noteq> ''__proto__''"
  shows \<open>map_of (compose_services config) (getServiceName service) =
           Some (getServiceConfig service) \<and>
         map_of (compose_services config) ''__proto__'' = None \<and>
         (toLowerCase (es_service service) = ''postgresql'' \<longrightarrow>
            image_of (getServiceConfig service) = Some ''postgres:latest'' \<and>
            sublist (''  '' @ getServiceName service @ '':'' @ [nl] @
                     ''    image: "postgres:latest"'' @ [nl])
              (generateDockerCompose config)) \<and>
         (toLowerCase (es_service service) \<notin> set lookup_table \<longrightarrow>
            getServiceConfig service = placeholder \<and>
            sublist (''  '' @ getServiceName service @ '':'' @ [nl] @
                     ''    image: "alpine:latest"'' @ [nl] @
                     ''    command: "sleep infinity"'' @ [nl])
              (generateDockerCompose config))\<close>
proof -
  note e = compose_services_entry[OF assms(1,2,3,5)]
  have p: \<open>toLowerCase (es_service service) = ''postgresql'' \<longrightarrow>
      image_of (getServiceConfig service) = Some ''postgres:latest'' \<and>
      sublist (''  '' @ getServiceName service @ '':'' @ [nl] @
               ''    image: "postgres:latest"'' @ [nl])
        (generateDockerCompose config)\<close>
  proof
    assume l: "toLowerCase (es_service service) = ''postgresql''"
    let ?v = "[(''image'', YStr ''postgres:latest''),
         (''environment'', YObj [(''POSTGRES_USER'', YStr ''user''),
                                 (''POSTGRES_PASSWORD'', YStr ''password''),
                                 (''POSTGRES_DB'', YStr ''app_db'')]),
         (''ports'', YArr [''5432:5432''])]"
    have c: "getServiceConfig service = YObj ?v"
      using l by (simp add: getServiceConfig_def)
    have "\<exists>rest. yamlify ?v 4 = (''    image: '' @ [CHR 0x22] @ ''postgres:latest'' @ [CHR 0x22] @ [nl]) @ rest"
      by (subst yamlify.simps)
        (simp add: static_keys_entries replicate_four del: add_2_eq_Suc add_2_eq_Suc')
    then obtain rest where
      y: "yamlify ?v 4 = (''    image: '' @ [CHR 0x22] @ ''postgres:latest'' @ [CHR 0x22] @ [nl]) @ rest"
      by blast
    from compose_entry_text[OF e[unfolded c]]
    have "sublist (''  '' @ getServiceName service @ '':'' @ [nl] @ yamlify ?v 4)
        (generateDockerCompose config)" .
    then have "sublist ((''  '' @ getServiceName service @ '':'' @ [nl] @
          ''    image: '' @ [CHR 0x22] @ ''postgres:latest'' @ [CHR 0x22] @ [nl]) @ rest)
        (generateDockerCompose config)"
      unfolding y by simp
    then have "sublist (''  '' @ getServiceName service @ '':'' @ [nl] @
          ''    image: '' @ [CHR 0x22] @ ''postgres:latest'' @ [CHR 0x22] @ [nl])
        (generateDockerCompose config)"
      using sublist_trans[OF sublist_append_rightI] by blast
    with c show \<open>image_of (getServiceConfig service) = Some ''postgres:latest'' \<and>
      sublist (''  '' @ getServiceName service @ '':'' @ [nl] @
               ''    image: "postgres:latest"'' @ [nl])
        (generateDockerCompose config)\<close>
      by simp
  qed
  have q: \<open>toLowerCase (es_service service) \<notin> set lookup_table \<longrightarrow>
      getServiceConfig service = placeholder \<and>
      sublist (''  '' @ getServiceName service @ '':'' @ [nl] @
               ''    image: "alpine:latest"'' @ [nl] @
               ''    command: "sleep infinity"'' @ [nl])
        (generateDockerCompose config)\<close>
  proof
    assume l: "toLowerCase (es_service service) \<notin> set lookup_table"
    let ?v = "[(''image'', YStr ''alpine:latest''), (''command'', YStr ''sleep infinity'')]"
    have c: "getServiceConfig service = YObj ?v"
      using l by (simp add: getServiceConfig_def lookup_table_def)
    have y: "yamlify ?v 4 = ''    image: '' @ [CHR 0x22] @ ''alpine:latest'' @ [CHR 0x22] @ [nl] @
        ''    command: '' @ [CHR 0x22] @ ''sleep infinity'' @ [CHR 0x22] @ [nl]"
      by (subst yamlify.simps)
        (simp add: static_keys_entries replicate_four del: add_2_eq_Suc add_2_eq_Suc')
    from compose_entry_text[OF e[unfolded c]]
    have "sublist (''  '' @ getServiceName service @ '':'' @ [nl] @ yamlify ?v 4)
        (generateDockerCompose config)" .
    with c show \<open>getServiceConfig service = placeholder \<and>
      sublist (''  '' @ getServiceName service @ '':'' @ [nl] @
               ''    image: "alpine:latest"'' @ [nl] @
               ''    command: "sleep infinity"'' @ [nl])
        (generateDockerCompose config)\<close>
      unfolding y by (simp add: placeholder_def)
  qed
  from e compose_services_proto[of config] p q show ?thesis
    by blast
qed

lemma lower_plain: "toLowerCase ''postgresql'' = ''postgresql''"
  by code_simp

lemma main_db_name: "getServiceName (example_service ''Main DB'' ''postgresql'') = ''main-db''"
  unfolding getServiceName_def example_service_def by code_simp

lemma main_db_ascii: "ascii ''Main DB''"
  by code_simp

theorem C9_compose_lookup_witness:
  \<open>example_service ''Main DB'' ''postgresql''
     \<in> set (externalServices (project
          (example_cicd (cloud_of ''aws'' (aws_creds False None) base_deployment)
             [example_service ''Main DB'' ''postgresql'']))) \<and>
   requiresInfrastructure (example_service ''Main DB'' ''postgresql'') \<and>
   distinct (map getServiceName (filter requiresInfrastructure (externalServices (project
          (example_cicd (cloud_of ''aws'' (aws_creds False None) base_deployment)
             [example_service ''Main DB'' ''postgresql''])))))  \<and>
   list_all (\<lambda>s. ascii (es_name s)) (filter requiresInfrastructure (externalServices (project
          (example_cicd (cloud_of ''aws'' (aws_creds False None) base_deployment)
             [example_service ''Main DB'' ''postgresql''])))) \<and>
   getServiceName (example_service ''Main DB'' ''postgresql'') \<noteq> ''__proto__'' \<and>
   toLowerCase (es_service (example_service ''Main DB'' ''postgresql'')) = ''postgresql'' \<and>
   map_of (compose_services
          (example_cicd (cloud_of ''aws'' (aws_creds False None) base_deployment)
             [example_service ''Main DB'' ''postgresql'']))
        ''main-db'' =
     Some (getServiceConfig (example_service ''Main DB'' ''postgresql'')) \<and>
   image_of (getServiceConfig (example_service ''Main DB'' ''postgresql'')) =
     Some ''postgres:latest'' \<and>
   sublist (''  main-db:'' @ [nl] @ ''    image: "postgres:latest"'' @ [nl])
     (generateDockerCompose
        (example_cicd (cloud_of ''aws'' (aws_creds False None) base_deployment)
           [example_service ''Main DB'' ''postgresql'']))\<close>
proof -
  let ?s = "example_service ''Main DB'' ''postgresql''"
  let ?c = "example_cicd (cloud_of ''aws'' (aws_creds False None) base_deployment) [?s]"
  have h1: "?s \<in> set (externalServices (project ?c))"
    by (simp add: example_cicd_def)
  have h2: "requiresInfrastructure ?s"
    by (simp add: example_service_def)
  have h3: "distinct (map getServiceName
      (filter requiresInfrastructure (externalServices (project ?c))))"
    by (simp add: example_cicd_def)
  have h4: "list_all (\<lambda>s. ascii (es_name s))
      (filter requiresInfrastructure (externalServices (project ?c)))"
    using h2 by (simp add: example_cicd_def) (simp add: example_service_def main_db_ascii)
  have h5: "getServiceName ?s \<noteq> ''__proto__''"
    unfolding main_db_name by simp
  have l: "toLowerCase (es_service ?s) = ''postgresql''"
    by (simp add: example_service_def lower_plain)
  from C9_compose_lookup[OF h1 h2 h3 h4 h5] l have
    \<open>map_of (compose_services ?c) (getServiceName ?s) = Some (getServiceConfig ?s) \<and>
     image_of (getServiceConfig ?s) = Some ''postgres:latest'' \<and>
     sublist (''  '' @ getServiceName ?s @ '':'' @ [nl] @ ''    image: "postgres:latest"'' @ [nl])
       (generateDockerCompose ?c)\<close>
    by blast
  then have
    \<open>map_of (compose_services ?c) ''main-db'' = Some (getServiceConfig ?s) \<and>
     image_of (getServiceConfig ?s) = Some ''postgres:latest'' \<and>
     sublist (''  main-db:'' @ [nl] @ ''    image: "postgres:latest"'' @ [nl])
       (generateDockerCompose ?c)\<close>
    unfolding main_db_name by simp
  with h1 h2 h3 h4 h5 l show ?thesis
    by blast
qed

text \<open>
  The claim as stated fails: \<open>PostgreSQL\<close> is not an identifier of the table, and its entry
  is the \<open>postgres\<close> entry, not the placeholder.
\<close>

theorem C9_counterexample:
  "''PostgreSQL'' \<notin> set lookup_table \<and>
   getServiceConfig (example_service ''db'' ''PostgreSQL'') \<noteq> placeholder \<and>
   image_of (getServiceConfig (example_service ''db'' ''PostgreSQL'')) = Some ''postgres:latest''"
  by (simp add: lookup_table_def getServiceConfig_def example_service_def lower_postgresql
      placeholder_def)

section \<open>C4: the configured values across the artifacts\<close>

lemma with_values_fields [simp]:
  "provider (with_values c p h) = provider c"
  "region (with_values c p h) = region c"
  "credentials (with_values c p h) = credentials c"
  "port (deploymentConfig (with_values c p h)) = p"
  "healthCheckPath (deploymentConfig (with_values c p h)) = h"
  "minInstances (deploymentConfig (with_values c p h)) = minInstances (deploymentConfig c)"
  "maxInstances (deploymentConfig (with_values c p h)) = maxInstances (deploymentConfig c)"
  "deploymentStrategy (deploymentConfig (with_values c p h)) =
     deploymentStrategy (deploymentConfig c)"
  "useLoadBalancer (deploymentConfig (with_values c p h)) = useLoadBalancer (deploymentConfig c)"
  "loadBalancerUrl (deploymentConfig (with_values c p h)) = loadBalancerUrl (deploymentConfig c)"
  by (simp_all add: with_values_def)

lemma with_values_blocks [simp]:
  "aws_authLogic (with_values c p h) = aws_authLogic c"
  "azure_authLogic (with_values c p h) = azure_authLogic c"
  "gcp_authLogic (with_values c p h) = gcp_authLogic c"
  "generateDeployedUrlExport (deploymentConfig (with_values c p h)) d =
     generateDeployedUrlExport (deploymentConfig c) d"
  by (simp_all add: aws_authLogic_def azure_authLogic_def gcp_authLogic_def
      generateDeployedUrlExport_def)

lemma paired_refl [simp]: "paired vs vs' l l"
  by (simp add: paired_def)

lemma differ_only_at_refl [simp]: "differ_only_at vs vs' ls ls"
  by (simp add: differ_only_at_def list_all2_same)

lemma differ_only_at_Nil [simp]: "differ_only_at vs vs' [] []"
  by (simp add: differ_only_at_def)

lemma differ_only_at_Cons [simp]:
  "differ_only_at vs vs' (x # xs) (y # ys) =
     (paired vs vs' x y \<and> differ_only_at vs vs' xs ys)"
  by (simp add: differ_only_at_def)

lemma differ_only_at_append:
  "differ_only_at vs vs' a a' \<Longrightarrow> differ_only_at vs vs' b b' \<Longrightarrow>
   differ_only_at vs vs' (a @ b) (a' @ b')"
  by (simp add: differ_only_at_def list_all2_appendI)

lemma lines_of_join_concat:
  "L \<noteq> [] \<Longrightarrow> lines_of (join_nl L) = concat (map lines_of L)"
proof (induction L rule: join_nl.induct)
  case 1
  then show ?case by simp
next
  case (2 l)
  then show ?case by (simp add: lines_of_join_single)
next
  case (3 l m ls)
  then show ?case by (simp add: lines_of_join_Cons)
qed

text \<open>
  Two templates of the same length whose elements differ only at the paired lines give
  texts that differ only there.
\<close>

lemma differ_only_at_join:
  assumes "list_all2 (\<lambda>e e'. differ_only_at vs vs' (lines_of e) (lines_of e')) L L'"
      and "L \<noteq> []"
  shows "differ_only_at vs vs' (lines_of (join_nl L)) (lines_of (join_nl L'))"
proof -
  have "differ_only_at vs vs' (concat (map lines_of L)) (concat (map lines_of L'))"
    using assms(1)
  proof (induction L L' rule: list_all2_induct)
    case Nil
    then show ?case by simp
  next
    case (Cons e L e' L')
    then show ?case by (simp add: differ_only_at_append)
  qed
  moreover have "L' \<noteq> []"
    using assms by (cases L') auto
  ultimately show ?thesis
    by (simp add: lines_of_join_concat assms(2))
qed

lemma url_block_differs:
  assumes "nl \<notin> set (js_str (loadBalancerUrl dc))"
      and "\<not> (useLoadBalancer dc \<and> truthy_str (loadBalancerUrl dc)) \<Longrightarrow>
           differ_only_at vs vs' (lines_of (''    '' @ d)) (lines_of (''    '' @ d'))"
  shows "differ_only_at vs vs'
           (lines_of (CHR '' '' # CHR '' '' # CHR '' '' # CHR '' '' # generateDeployedUrlExport dc d))
           (lines_of (CHR '' '' # CHR '' '' # CHR '' '' # CHR '' '' # generateDeployedUrlExport dc d'))"
proof (cases "useLoadBalancer dc \<and> truthy_str (loadBalancerUrl dc)")
  case True
  then have "generateDeployedUrlExport dc d = generateDeployedUrlExport dc d'"
    by (simp add: generateDeployedUrlExport_def)
  then show ?thesis
    by simp
next
  case False
  have e: \<open>lines_of (CHR '' '' # CHR '' '' # CHR '' '' # CHR '' '' # generateDeployedUrlExport dc x) =
      ''    '' # lines_of (CHR '' '' # CHR '' '' # CHR '' '' # CHR '' '' # x) @
       [''    echo "DEPLOYED_URL=$DEPLOYED_URL" >> deployment.env'',
        ''    echo "Deployment completed. Reachable at: $DEPLOYED_URL"'']\<close> for x
    by (simp only: url_block_lines[OF assms(1)] if_not_P[OF False])
  from assms(2)[OF False] show ?thesis
    unfolding e by (auto intro!: differ_only_at_append)
qed

lemma aws_lookup_differs:
  assumes "plain_config c n" and "plain_config (with_values c p h) m"
      and "provider c = ''aws''"
  shows "differ_only_at (script_value_lines c n) (script_value_lines (with_values c p h) m)
     (lines_of (CHR '' '' # CHR '' '' # CHR '' '' # CHR '' '' #
        generateDeployedUrlExport (deploymentConfig c) (aws_defaultUrlScript c n)))
     (lines_of (CHR '' '' # CHR '' '' # CHR '' '' # CHR '' '' #
        generateDeployedUrlExport (deploymentConfig c)
          (aws_defaultUrlScript (with_values c p h) m)))"
proof (rule url_block_differs)
  show "nl \<notin> set (js_str (loadBalancerUrl (deploymentConfig c)))"
    using assms(1) by (simp add: plain_config_def)
next
  assume "\<not> (useLoadBalancer (deploymentConfig c) \<and>
      truthy_str (loadBalancerUrl (deploymentConfig c)))"
  then have N: "\<not> (useLoadBalancer (deploymentConfig c) \<and>
      truthy_str (loadBalancerUrl (deploymentConfig c)))" .
  show "differ_only_at (script_value_lines c n)
      (script_value_lines (with_values c p h) m)
      (lines_of (''    '' @ aws_defaultUrlScript c n))
      (lines_of (''    '' @ aws_defaultUrlScript (with_values c p h) m))"
    using assms unfolding script_value_lines_def with_values_fields if_not_P[OF N]
    by (simp add: plain_config_def aws_defaultUrlScript_def lines_simps paired_def)
qed

lemma aws_script_differs:
  assumes "plain_config c n" and "plain_config (with_values c p h) m"
      and "provider c = ''aws''"
  shows "differ_only_at (script_value_lines c n) (script_value_lines (with_values c p h) m)
           (lines_of (generateAWSDeploymentScript c n))
           (lines_of (generateAWSDeploymentScript (with_values c p h) m))"
  unfolding generateAWSDeploymentScript_def
  apply (rule differ_only_at_join)
   apply (simp add: assms(1,2)[unfolded plain_config_def with_values_fields] lines_of_free
      aws_lookup_differs[OF assms])
   apply (simp add: script_value_lines_def paired_def assms(3))
  apply simp
  done

lemma azure_lookup_differs:
  assumes "plain_config c n" and "plain_config (with_values c p h) m"
      and "provider c = ''azure''"
  shows "differ_only_at (script_value_lines c n) (script_value_lines (with_values c p h) m)
     (lines_of (CHR '' '' # CHR '' '' # CHR '' '' # CHR '' '' #
        generateDeployedUrlExport (deploymentConfig c) (azure_defaultUrlScript c n)))
     (lines_of (CHR '' '' # CHR '' '' # CHR '' '' # CHR '' '' #
        generateDeployedUrlExport (deploymentConfig c)
          (azure_defaultUrlScript (with_values c p h) m)))"
proof (rule url_block_differs)
  show "nl \<notin> set (js_str (loadBalancerUrl (deploymentConfig c)))"
    using assms(1) by (simp add: plain_config_def)
next
  assume "\<not> (useLoadBalancer (deploymentConfig c) \<and>
      truthy_str (loadBalancerUrl (deploymentConfig c)))"
  then have N: "\<not> (useLoadBalancer (deploymentConfig c) \<and>
      truthy_str (loadBalancerUrl (deploymentConfig c)))" .
  show "differ_only_at (script_value_lines c n)
      (script_value_lines (with_values c p h) m)
      (lines_of (''    '' @ azure_defaultUrlScript c n))
      (lines_of (''    '' @ azure_defaultUrlScript (with_values c p h) m))"
    using assms unfolding script_value_lines_def with_values_fields if_not_P[OF N]
    by (simp add: plain_config_def azure_defaultUrlScript_def lines_simps paired_def)
qed

lemma azure_script_differs:
  assumes "plain_config c n" and "plain_config (with_values c p h) m"
      and "provider c = ''azure''"
  shows "differ_only_at (script_value_lines c n) (script_value_lines (with_values c p h) m)
           (lines_of (generateAzureDeploymentScript c n))
           (lines_of (generateAzureDeploymentScript (with_values c p h) m))"
  unfolding generateAzureDeploymentScript_def
  apply (rule differ_only_at_join)
   apply (simp add: assms(1,2)[unfolded plain_config_def with_values_fields] lines_of_free
      azure_lookup_differs[OF assms])
   apply (simp add: script_value_lines_def paired_def assms(3))
  apply simp
  done

lemma gcp_script_differs:
  assumes "plain_config c n" and "plain_config (with_values c p h) m"
      and "provider c = ''gcp''"
  shows "differ_only_at (script_value_lines c n) (script_value_lines (with_values c p h) m)
           (lines_of (generateGCPDeploymentScript c n))
           (lines_of (generateGCPDeploymentScript (with_values c p h) m))"
  unfolding generateGCPDeploymentScript_def
  apply (rule differ_only_at_join)
   apply (simp add: assms(1,2)[unfolded plain_config_def with_values_fields] lines_of_free
      gcp_defaultUrlScript_def)
   apply (simp add: script_value_lines_def paired_def assms(3))
  apply simp
  done

lemma do_script_differs:
  assumes "plain_config c n" and "plain_config (with_values c p h) m"
      and "provider c = ''digitalocean''"
  shows "differ_only_at (script_value_lines c n) (script_value_lines (with_values c p h) m)
           (lines_of (generateDigitalOceanDeploymentScript c n))
           (lines_of (generateDigitalOceanDeploymentScript (with_values c p h) m))"
  unfolding generateDigitalOceanDeploymentScript_def
  apply (rule differ_only_at_join)
   apply (simp add: assms(1,2)[unfolded plain_config_def with_values_fields] lines_of_free
      do_defaultUrlScript_def)
   apply (simp add: script_value_lines_def paired_def assms(3))
  apply simp
  done

lemma aws_manifest_differs:
  assumes "plain_config c n" and "plain_config (with_values c p h) m"
      and "provider c = ''aws''"
  shows "differ_only_at (manifest_value_lines c n) (manifest_value_lines (with_values c p h) m)
           (lines_of (generateAWSTerraform c n))
           (lines_of (generateAWSTerraform (with_values c p h) m))"
  unfolding generateAWSTerraform_def
  apply (rule differ_only_at_join)
   apply (simp add: assms(1,2)[unfolded plain_config_def with_values_fields] lines_of_free)
   apply (simp add: manifest_value_lines_def paired_def assms(3))
  apply simp
  done

lemma azure_manifest_differs:
  assumes "plain_config c n" and "plain_config (with_values c p h) m"
      and "provider c = ''azure''"
  shows "differ_only_at (manifest_value_lines c n) (manifest_value_lines (with_values c p h) m)
           (lines_of (generateAzureTerraform c n))
           (lines_of (generateAzureTerraform (with_values c p h) m))"
  unfolding generateAzureTerraform_def
  apply (rule differ_only_at_join)
   apply (simp add: assms(1,2)[unfolded plain_config_def with_values_fields] lines_of_free)
   apply (simp add: manifest_value_lines_def paired_def assms(3))
  apply simp
  done

lemma gcp_manifest_differs:
  assumes "plain_config c n" and "plain_config (with_values c p h) m"
      and "provider c = ''gcp''"
  shows "differ_only_at (manifest_value_lines c n) (manifest_value_lines (with_values c p h) m)
           (lines_of (generateGCPTerraform c n))
           (lines_of (generateGCPTerraform (with_values c p h) m))"
  unfolding generateGCPTerraform_def
  apply (rule differ_only_at_join)
   apply (simp add: assms(1,2)[unfolded plain_config_def with_values_fields] lines_of_free)
   apply (simp add: manifest_value_lines_def paired_def assms(3))
  apply simp
  done

lemma do_manifest_differs:
  assumes "plain_config c n" and "plain_config (with_values c p h) m"
      and "provider c = ''digitalocean''"
  shows "differ_only_at (manifest_value_lines c n) (manifest_value_lines (with_values c p h) m)
           (lines_of (generateDOTerraform c n))
           (lines_of (generateDOTerraform (with_values c p h) m))"
  unfolding generateDOTerraform_def
  apply (rule differ_only_at_join)
   apply (simp add: assms(1,2)[unfolded plain_config_def with_values_fields] lines_of_free)
   apply (simp add: manifest_value_lines_def paired_def assms(3))
  apply simp
  done

lemma artifacts_differ:
  assumes "provider c \<in> {''aws'', ''azure'', ''gcp'', ''digitalocean''}"
      and "plain_config c n" and "plain_config (with_values c p h) m"
  shows "\<exists>s t. generateDeploymentScript c n = Inr s \<and>
           generateDeploymentScript (with_values c p h) m = Inr t \<and>
           differ_only_at (script_value_lines c n) (script_value_lines (with_values c p h) m)
             (lines_of s) (lines_of t) \<and>
           differ_only_at (manifest_value_lines c n)
             (manifest_value_lines (with_values c p h) m)
             (lines_of (generateTerraformConfig c n))
             (lines_of (generateTerraformConfig (with_values c p h) m))"
proof -
  consider "provider c = ''aws''" | "provider c = ''azure''"
    | "provider c = ''gcp''" | "provider c = ''digitalocean''"
    using assms(1) by auto
  then show ?thesis
  proof cases
    case 1
    with aws_script_differs[OF assms(2,3)] aws_manifest_differs[OF assms(2,3)] show ?thesis
      by (simp add: generateDeploymentScript_def generateTerraformConfig_def)
  next
    case 2
    with azure_script_differs[OF assms(2,3)] azure_manifest_differs[OF assms(2,3)] show ?thesis
      by (simp add: generateDeploymentScript_def generateTerraformConfig_def)
  next
    case 3
    with gcp_script_differs[OF assms(2,3)] gcp_manifest_differs[OF assms(2,3)] show ?thesis
      by (simp add: generateDeploymentScript_def generateTerraformConfig_def)
  next
    case 4
    with do_script_differs[OF assms(2,3)] do_manifest_differs[OF assms(2,3)] show ?thesis
      by (simp add: generateDeploymentScript_def generateTerraformConfig_def)
  qed
qed

lemma aws_value_lines:
  assumes "plain_config config dockerImageName" and "provider config = ''aws''"
  shows "set (script_value_lines config dockerImageName)
           \<subseteq> set (lines_of (generateAWSDeploymentScript config dockerImageName))"
    and "set (manifest_value_lines config dockerImageName)
           \<subseteq> set (lines_of (generateAWSTerraform config dockerImageName))"
  using assms
  by (simp_all add: plain_config_def script_value_lines_def manifest_value_lines_def
      generateAWSDeploymentScript_def generateAWSTerraform_def lines_simps url_block_lines
      aws_defaultUrlScript_def)

lemma azure_value_lines:
  assumes "plain_config config dockerImageName" and "provider config = ''azure''"
  shows "set (script_value_lines config dockerImageName)
           \<subseteq> set (lines_of (generateAzureDeploymentScript config dockerImageName))"
    and "set (manifest_value_lines config dockerImageName)
           \<subseteq> set (lines_of (generateAzureTerraform config dockerImageName))"
  using assms
  by (simp_all add: plain_config_def script_value_lines_def manifest_value_lines_def
      generateAzureDeploymentScript_def generateAzureTerraform_def lines_simps url_block_lines
      azure_defaultUrlScript_def)

lemma gcp_value_lines:
  assumes "plain_config config dockerImageName" and "provider config = ''gcp''"
  shows "set (script_value_lines config dockerImageName)
           \<subseteq> set (lines_of (generateGCPDeploymentScript config dockerImageName))"
    and "set (manifest_value_lines config dockerImageName)
           \<subseteq> set (lines_of (generateGCPTerraform config dockerImageName))"
  using assms
  by (simp_all add: plain_config_def script_value_lines_def manifest_value_lines_def
      generateGCPDeploymentScript_def generateGCPTerraform_def lines_simps)

lemma do_value_lines:
  assumes "plain_config config dockerImageName" and "provider config = ''digitalocean''"
  shows "set (script_value_lines config dockerImageName)
           \<subseteq> set (lines_of (generateDigitalOceanDeploymentScript config dockerImageName))"
    and "set (manifest_value_lines config dockerImageName)
           \<subseteq> set (lines_of (generateDOTerraform config dockerImageName))"
  using assms
  by (simp_all add: plain_config_def script_value_lines_def manifest_value_lines_def
      generateDigitalOceanDeploymentScript_def generateDOTerraform_def lines_simps)

lemma value_lines:
  assumes "provider config \<in> {''aws'', ''azure'', ''gcp'', ''digitalocean''}"
      and "plain_config config dockerImageName"
  shows "\<exists>s. generateDeploymentScript config dockerImageName = Inr s \<and>
           set (script_value_lines config dockerImageName) \<subseteq> set (lines_of s) \<and>
           set (manifest_value_lines config dockerImageName)
             \<subseteq> set (lines_of (generateTerraformConfig config dockerImageName))"
proof -
  consider "provider config = ''aws''" | "provider config = ''azure''"
    | "provider config = ''gcp''" | "provider config = ''digitalocean''"
    using assms(1) by auto
  then show ?thesis
  proof cases
    case 1
    with aws_value_lines[OF assms(2)] show ?thesis
      by (simp add: generateDeploymentScript_def generateTerraformConfig_def)
  next
    case 2
    with azure_value_lines[OF assms(2)] show ?thesis
      by (simp add: generateDeploymentScript_def generateTerraformConfig_def)
  next
    case 3
    with gcp_value_lines[OF assms(2)] show ?thesis
      by (simp add: generateDeploymentScript_def generateTerraformConfig_def)
  next
    case 4
    with do_value_lines[OF assms(2)] show ?thesis
      by (simp add: generateDeploymentScript_def generateTerraformConfig_def)
  qed
qed

lemma yamlify_entry_array:
  assumes "(k, YArr items) \<in> set (entries obj)"
  shows \<open>sublist
     (replicate indent CHR '' '' @ k @ '':'' @ [nl] @
      concat (map (\<lambda>item. replicate indent CHR '' '' @ ''  - "'' @ item @ ''"'' @ [nl]) items))
     (yamlify obj indent)\<close>
proof -
  have \<open>sublist
     ((\<lambda>kv.
      (case snd kv of
         YObj v \<Rightarrow> replicate indent CHR '' '' @ fst kv @ '':'' @ [nl] @ yamlify v (indent + 2)
       | YArr items \<Rightarrow>
           replicate indent CHR '' '' @ fst kv @ '':'' @ [nl] @
           concat (map (\<lambda>item. replicate indent CHR '' '' @ ''  - "'' @ item @ ''"'' @ [nl]) items)
       | YStr s \<Rightarrow> replicate indent CHR '' '' @ fst kv @ '': "'' @ s @ ''"'' @ [nl])) (k, YArr items))
     (concat (map (\<lambda>kv.
      (case snd kv of
         YObj v \<Rightarrow> replicate indent CHR '' '' @ fst kv @ '':'' @ [nl] @ yamlify v (indent + 2)
       | YArr items \<Rightarrow>
           replicate indent CHR '' '' @ fst kv @ '':'' @ [nl] @
           concat (map (\<lambda>item. replicate indent CHR '' '' @ ''  - "'' @ item @ ''"'' @ [nl]) items)
       | YStr s \<Rightarrow> replicate indent CHR '' '' @ fst kv @ '': "'' @ s @ ''"'' @ [nl]))
     (entries obj)))\<close>
    by (rule sublist_concat_map[OF assms])
  then show ?thesis
    by (subst yamlify.simps[of obj indent]) simp
qed

text \<open>
  The \<open>services\<close> object of the compose manifest: the entry of the application, then the
  entries of the external services, which do not depend on the port.
\<close>

lemma services_keep_app:
  assumes "''app'' \<notin> set (map getServiceName (filter requiresInfrastructure svcs))"
  shows "foldl (\<lambda>services service.
              if requiresInfrastructure service
              then js_assign services (getServiceName service) (getServiceConfig service)
              else services) ((''app'', A) # r) svcs =
         (''app'', A) #
         foldl (\<lambda>services service.
              if requiresInfrastructure service
              then js_assign services (getServiceName service) (getServiceConfig service)
              else services) r svcs"
  using assms
proof (induction svcs arbitrary: r)
  case Nil
  show ?case by simp
next
  case (Cons s svcs)
  show ?case
  proof (cases "requiresInfrastructure s")
    case True
    with Cons.prems have n: "''app'' \<noteq> getServiceName s"
      and r: "''app'' \<notin> set (map getServiceName (filter requiresInfrastructure svcs))"
      by auto
    have "js_assign ((''app'', A) # r) (getServiceName s) (getServiceConfig s) =
        (''app'', A) # js_assign r (getServiceName s) (getServiceConfig s)"
      using n by (simp add: js_assign_def)
    with True Cons.IH[OF r] show ?thesis
      by simp
  next
    case False
    with Cons.prems have "''app'' \<notin> set (map getServiceName (filter requiresInfrastructure svcs))"
      by simp
    with False Cons.IH show ?thesis
      by simp
  qed
qed

lemma compose_services_app:
  assumes "''app'' \<notin> set (map getServiceName
             (filter requiresInfrastructure (externalServices (project config))))"
  shows "compose_services config =
    (''app'',
     YObj [(''build'', YStr ''.''),
           (''ports'', YArr [show_num (port (deploymentConfig (cloud config))) @ '':'' @
                             show_num (port (deploymentConfig (cloud config)))]),
           (''env_file'', YArr [''.env'']),
           (''depends_on'',
              YArr (map getServiceName
                      (filter requiresInfrastructure (externalServices (project config)))))]) #
    foldl (\<lambda>services service.
              if requiresInfrastructure service
              then js_assign services (getServiceName service) (getServiceConfig service)
              else services) [] (externalServices (project config))"
  unfolding compose_services_def using services_keep_app[OF assms] by simp

lemma compose_port:
  assumes "''app'' \<notin> set (map getServiceName
             (filter requiresInfrastructure (externalServices (project config))))"
  shows "sublist (compose_port_text config) (generateDockerCompose config)"
proof -
  let ?p = "show_num (port (deploymentConfig (cloud config)))"
  let ?d = "YArr (map getServiceName
      (filter requiresInfrastructure (externalServices (project config))))"
  let ?v = "[(''build'', YStr ''.''), (''ports'', YArr [?p @ '':'' @ ?p]),
            (''env_file'', YArr [''.env'']), (''depends_on'', ?d)]"
  have m: "map_of (compose_services config) ''app'' = Some (YObj ?v)"
    unfolding compose_services_app[OF assms] by simp
  have "(''ports'', YArr [?p @ '':'' @ ?p]) \<in> set (entries ?v)"
    by (simp add: set_entries)
  from yamlify_entry_array[OF this, of 4]
  have "sublist (compose_port_text config) (yamlify ?v 4)"
    by (simp add: compose_port_text_def replicate_four)
  moreover have "sublist (yamlify ?v 4) (''  '' @ ''app'' @ '':'' @ [nl] @ yamlify ?v 4)"
    using sublist_append_leftI[of "yamlify ?v 4" "''  '' @ ''app'' @ '':'' @ [nl]"] by simp
  ultimately have "sublist (compose_port_text config) (''  '' @ ''app'' @ '':'' @ [nl] @ yamlify ?v 4)"
    by (rule sublist_trans)
  from sublist_trans[OF this compose_entry_text[OF m]] show ?thesis .
qed

text \<open>What the artifacts do not render.\<close>

lemma aws_manifest_ignores_values:
  "generateAWSTerraform (with_values c p h) n = generateAWSTerraform c n"
  by (simp add: generateAWSTerraform_def)

lemma azure_ignores_health:
  "generateAzureDeploymentScript (with_values c (port (deploymentConfig c)) h) n =
     generateAzureDeploymentScript c n"
  "generateAzureTerraform (with_values c (port (deploymentConfig c)) h) n =
     generateAzureTerraform c n"
  by (simp_all add: generateAzureDeploymentScript_def generateAzureTerraform_def
      azure_defaultUrlScript_def)

lemma gcp_ignores_health:
  "generateGCPDeploymentScript (with_values c (port (deploymentConfig c)) h) n =
     generateGCPDeploymentScript c n"
  "generateGCPTerraform (with_values c (port (deploymentConfig c)) h) n =
     generateGCPTerraform c n"
  by (simp_all add: generateGCPDeploymentScript_def generateGCPTerraform_def
      gcp_defaultUrlScript_def)

lemma compose_ignores_health_and_name:
  "generateDockerCompose
     (config\<lparr>cloud := with_values (cloud config) (port (deploymentConfig (cloud config))) h,
             project := (project config)\<lparr>projectName := x\<rparr>\<rparr>) =
   generateDockerCompose config"
  by (simp add: generateDockerCompose_def compose_services_def)

text \<open>
  C4, as the code has it. Each generator renders the configured values where it renders
  them. The lines of \<open>script_value_lines\<close> and of \<open>manifest_value_lines\<close>, which hold the
  artifact name, the decimal port and the health-check path of the configuration, are
  lines of the deployment script and of the manifest, and these are the only lines that
  depend on the three values: for any other port, path and name the script and the
  manifest have the same number of lines and differ only at these lines. The compose
  manifest binds the port twice under the application service \<open>app\<close> (unless an external
  service takes that name), and the other entries of its services do not depend on the
  port. Not every artifact renders every value: the AWS manifest renders neither the port
  nor the path, the Azure and GCP scripts and manifests no path, and the compose manifest
  neither the path nor the name of the project.
\<close>

theorem C4_configured_values:
  assumes "provider (cloud config) \<in> {''aws'', ''azure'', ''gcp'', ''digitalocean''}"
      and "plain_config (cloud config) dockerImageName"
      and "isSafeInteger (port (deploymentConfig (cloud config)))"
      and "isSafeInteger (num_or (minInstances (deploymentConfig (cloud config))) 1)"
      and "''app'' \<notin> set (map getServiceName
             (filter requiresInfrastructure (externalServices (project config))))"
  shows "\<exists>s. generateDeploymentScript (cloud config) dockerImageName = Inr s \<and>
    set (script_value_lines (cloud config) dockerImageName) \<subseteq> set (lines_of s) \<and>
    set (manifest_value_lines (cloud config) dockerImageName)
      \<subseteq> set (lines_of (generateTerraformConfig (cloud config) dockerImageName)) \<and>
    sublist (compose_port_text config) (generateDockerCompose config) \<and>
    (\<forall>p h m. isSafeInteger p \<and> plain_config (with_values (cloud config) p h) m \<longrightarrow>
       (\<exists>t. generateDeploymentScript (with_values (cloud config) p h) m = Inr t \<and>
            differ_only_at (script_value_lines (cloud config) dockerImageName)
              (script_value_lines (with_values (cloud config) p h) m)
              (lines_of s) (lines_of t)) \<and>
       differ_only_at (manifest_value_lines (cloud config) dockerImageName)
         (manifest_value_lines (with_values (cloud config) p h) m)
         (lines_of (generateTerraformConfig (cloud config) dockerImageName))
         (lines_of (generateTerraformConfig (with_values (cloud config) p h) m))) \<and>
    (\<exists>rest d. \<forall>config'.
       externalServices (project config') = externalServices (project config) \<and>
       isSafeInteger (port (deploymentConfig (cloud config'))) \<longrightarrow>
         compose_services config' =
           (''app'',
            YObj [(''build'', YStr ''.''),
                  (''ports'', YArr [show_num (port (deploymentConfig (cloud config'))) @ '':'' @
                                    show_num (port (deploymentConfig (cloud config')))]),
                  (''env_file'', YArr [''.env'']),
                  (''depends_on'', YArr d)]) # rest) \<and>
    (provider (cloud config) = ''aws'' \<longrightarrow>
       (\<forall>p h. generateTerraformConfig (with_values (cloud config) p h) dockerImageName =
              generateTerraformConfig (cloud config) dockerImageName)) \<and>
    (provider (cloud config) = ''azure'' \<or> provider (cloud config) = ''gcp'' \<longrightarrow>
       (\<forall>h. generateDeploymentScript
               (with_values (cloud config) (port (deploymentConfig (cloud config))) h)
               dockerImageName =
             generateDeploymentScript (cloud config) dockerImageName \<and>
            generateTerraformConfig
               (with_values (cloud config) (port (deploymentConfig (cloud config))) h)
               dockerImageName =
             generateTerraformConfig (cloud config) dockerImageName)) \<and>
    (\<forall>h x. generateDockerCompose
              (config\<lparr>cloud := with_values (cloud config)
                                 (port (deploymentConfig (cloud config))) h,
                      project := (project config)\<lparr>projectName := x\<rparr>\<rparr>) =
            generateDockerCompose config)"
proof -
  from value_lines[OF assms(1,2)] obtain s where
    s: "generateDeploymentScript (cloud config) dockerImageName = Inr s" and
    v: "set (script_value_lines (cloud config) dockerImageName) \<subseteq> set (lines_of s)"
       "set (manifest_value_lines (cloud config) dockerImageName)
          \<subseteq> set (lines_of (generateTerraformConfig (cloud config) dockerImageName))"
    by blast
  have d: "(\<exists>t. generateDeploymentScript (with_values (cloud config) p h) m = Inr t \<and>
            differ_only_at (script_value_lines (cloud config) dockerImageName)
              (script_value_lines (with_values (cloud config) p h) m)
              (lines_of s) (lines_of t)) \<and>
       differ_only_at (manifest_value_lines (cloud config) dockerImageName)
         (manifest_value_lines (with_values (cloud config) p h) m)
         (lines_of (generateTerraformConfig (cloud config) dockerImageName))
         (lines_of (generateTerraformConfig (with_values (cloud config) p h) m))"
    if "plain_config (with_values (cloud config) p h) m" for p h m
    using artifacts_differ[OF assms(1,2) that] s by auto
  let ?rest = "foldl (\<lambda>services service.
              if requiresInfrastructure service
              then js_assign services (getServiceName service) (getServiceConfig service)
              else services) [] (externalServices (project config))"
  let ?d = "map getServiceName
      (filter requiresInfrastructure (externalServices (project config)))"
  have c: "compose_services config' =
           (''app'',
            YObj [(''build'', YStr ''.''),
                  (''ports'', YArr [show_num (port (deploymentConfig (cloud config'))) @ '':'' @
                                    show_num (port (deploymentConfig (cloud config')))]),
                  (''env_file'', YArr [''.env'']),
                  (''depends_on'', YArr ?d)]) # ?rest"
    if "externalServices (project config') = externalServices (project config)" for config'
    using compose_services_app[of config'] assms(5) that by simp
  have a: "generateTerraformConfig (with_values (cloud config) p h) dockerImageName =
      generateTerraformConfig (cloud config) dockerImageName"
    if "provider (cloud config) = ''aws''" for p h
    using that by (simp add: generateTerraformConfig_def aws_manifest_ignores_values)
  have z: "generateDeploymentScript
        (with_values (cloud config) (port (deploymentConfig (cloud config))) h)
        dockerImageName =
      generateDeploymentScript (cloud config) dockerImageName \<and>
      generateTerraformConfig
        (with_values (cloud config) (port (deploymentConfig (cloud config))) h)
        dockerImageName =
      generateTerraformConfig (cloud config) dockerImageName"
    if "provider (cloud config) = ''azure'' \<or> provider (cloud config) = ''gcp''" for h
    using that
    by (auto simp: generateDeploymentScript_def generateTerraformConfig_def
        azure_ignores_health gcp_ignores_health)
  from s v compose_port[OF assms(5)] d c a z compose_ignores_health_and_name[where config = config]
  show ?thesis
    by blast
qed

lemma sublist_sep:
  assumes "c \<notin> set m" and "m \<noteq> []"
  shows "sublist m (x @ c # r) \<longleftrightarrow> sublist m x \<or> sublist m r"
proof
  assume "sublist m (x @ c # r)"
  then consider "sublist m x" | "sublist m (c # r)"
    | xs1 xs2 where "m = xs1 @ xs2" "suffix xs1 x" "prefix xs2 (c # r)"
    unfolding sublist_append by blast
  then show "sublist m x \<or> sublist m r"
  proof cases
    case 1
    then show ?thesis by simp
  next
    case 2
    then have "prefix m (c # r) \<or> sublist m r"
      by (simp add: sublist_Cons_right)
    moreover have "\<not> prefix m (c # r)"
      using assms by (cases m) auto
    ultimately show ?thesis by simp
  next
    case 3
    have "xs2 = []"
      using 3(1,3) assms(1) by (cases xs2) auto
    with 3 have "suffix m x" by simp
    then show ?thesis by (simp add: suffix_imp_sublist)
  qed
next
  assume "sublist m x \<or> sublist m r"
  then show "sublist m (x @ c # r)"
    by (auto simp: sublist_append sublist_Cons_right)
qed

lemma sublist_join_nl:
  assumes "nl \<notin> set m" and "m \<noteq> []"
  shows "sublist m (join_nl ls) \<longleftrightarrow> (\<exists>l\<in>set ls. sublist m l)"
proof (induction ls rule: join_nl.induct)
  case 1
  then show ?case using assms by (simp add: join_nl.simps)
next
  case (2 x)
  then show ?case by (simp add: join_nl.simps)
next
  case (3 x y ys)
  have "sublist m (join_nl (x # y # ys)) \<longleftrightarrow> sublist m (x @ nl # join_nl (y # ys))"
    by (simp add: join_nl.simps)
  also have "\<dots> \<longleftrightarrow> sublist m x \<or> sublist m (join_nl (y # ys))"
    by (rule sublist_sep[OF assms])
  finally show ?case using 3 by simp
qed

lemma yamlify_Nil: "yamlify [] indent = []"
  by (subst yamlify.simps) (simp add: entries_def)

lemma yamlify_Cons:
  assumes "list_all (\<lambda>kv. \<not> is_array_index (fst kv)) ((k, v) # obj)"
  shows \<open>yamlify ((k, v) # obj) indent =
     (case v of
         YObj w \<Rightarrow> replicate indent CHR '' '' @ k @ '':'' @ [nl] @ yamlify w (indent + 2)
       | YArr items \<Rightarrow>
           replicate indent CHR '' '' @ k @ '':'' @ [nl] @
           concat (map (\<lambda>item. replicate indent CHR '' '' @ ''  - "'' @ item @ ''"'' @ [nl]) items)
       | YStr s \<Rightarrow> replicate indent CHR '' '' @ k @ '': "'' @ s @ ''"'' @ [nl]) @
     yamlify obj indent\<close>
proof -
  have e: "entries ((k, v) # obj) = (k, v) # obj" "entries obj = obj"
    using assms by (simp_all add: entries_def list_all_iff)
  show ?thesis
    by (subst yamlify.simps[of "(k, v) # obj"], subst yamlify.simps[of obj])
      (simp add: e split: yval.split)
qed

lemma example_compose:
  \<open>generateDockerCompose
     (example_cicd (cloud_of ''aws'' (aws_creds False None) base_deployment) []) =
   join_nl
    [''version: "3.8"'',
     ''services:'',
     ''  app:'',
     ''    build: "."'',
     ''    ports:'',
     ''      - "3000:3000"'',
     ''    env_file:'',
     ''      - ".env"'',
     ''    depends_on:'',
     '''']\<close>
  by (simp add: generateDockerCompose_def compose_services_def example_cicd_def cloud_of_def
      base_deployment_def yamlify_Cons yamlify_Nil is_array_index_def is_digit_def
      show_num_values join_nl.simps)

text \<open>
  The claim as stated fails. With health-check path \<open>/health\<close> and port 3000 the AWS
  deployment script holds both in its container health check, yet neither the AWS manifest
  nor the compose manifest holds the path, and the AWS manifest does not hold the port.
\<close>

theorem C4_counterexample:
  \<open>healthCheckPath (deploymentConfig (cloud_of ''aws'' (aws_creds False None) base_deployment))
     = ''/health'' \<and>
   port (deploymentConfig (cloud_of ''aws'' (aws_creds False None) base_deployment)) = 3000 \<and>
   (\<exists>s. generateDeploymentScript
          (cloud_of ''aws'' (aws_creds False None) base_deployment) ''app'' = Inr s \<and>
        ''            "command": ["CMD-SHELL", "curl -f http://localhost:3000/health || exit 1"],''
          \<in> set (lines_of s)) \<and>
   \<not> sublist ''/health''
       (generateTerraformConfig
          (cloud_of ''aws'' (aws_creds False None) base_deployment) ''app'') \<and>
   \<not> sublist ''3000''
       (generateTerraformConfig
          (cloud_of ''aws'' (aws_creds False None) base_deployment) ''app'') \<and>
   \<not> sublist ''/health''
       (generateDockerCompose
          (example_cicd (cloud_of ''aws'' (aws_creds False None) base_deployment) []))\<close>
proof -
  let ?c = "cloud_of ''aws'' (aws_creds False None) base_deployment"
  have p: "provider ?c = ''aws''"
    by (simp add: cloud_of_def)
  have pl: "plain_config ?c ''app''"
    by (simp add: plain_cloud_of aws_creds_def js_str_def)
  have v: "healthCheckPath (deploymentConfig ?c) = ''/health''" "port (deploymentConfig ?c) = 3000"
    by (simp_all add: cloud_of_def base_deployment_def)
  have s: \<open>\<exists>s. generateDeploymentScript ?c ''app'' = Inr s \<and>
        ''            "command": ["CMD-SHELL", "curl -f http://localhost:3000/health || exit 1"],''
          \<in> set (lines_of s)\<close>
    using aws_value_lines(1)[OF pl p]
    by (simp add: generateDeploymentScript_def p script_value_lines_def v show_num_values)
  have t: "generateTerraformConfig ?c ''app'' = generateAWSTerraform ?c ''app''"
    by (simp add: generateTerraformConfig_def p)
  have r: "region ?c = ''us-east-1''"
    by (simp add: cloud_of_def)
  have m1: "\<not> sublist ''/health'' (generateTerraformConfig ?c ''app'')"
    unfolding t generateAWSTerraform_def r
    by (simp add: sublist_join_nl sublist_Cons_right)
  have m2: "\<not> sublist ''3000'' (generateTerraformConfig ?c ''app'')"
    unfolding t generateAWSTerraform_def r
    by (simp add: sublist_join_nl sublist_Cons_right)
  have m3: "\<not> sublist ''/health'' (generateDockerCompose (example_cicd ?c []))"
    unfolding example_compose
    by (simp add: sublist_join_nl sublist_Cons_right)
  from v s m1 m2 m3 show ?thesis
    by blast
qed

text \<open>
  An instance: the DigitalOcean artifacts for port 3000, path \<open>/health\<close> and name \<open>app\<close>,
  against those for port 8080, path \<open>/ready\<close> and name \<open>shop\<close>.
\<close>

theorem C4_configured_values_witness:
  \<open>provider (cloud (example_cicd (cloud_of ''digitalocean'' do_creds base_deployment) []))
     \<in> {''aws'', ''azure'', ''gcp'', ''digitalocean''} \<and>
   plain_config (cloud (example_cicd (cloud_of ''digitalocean'' do_creds base_deployment) []))
     ''app'' \<and>
   isSafeInteger (port (deploymentConfig
     (cloud (example_cicd (cloud_of ''digitalocean'' do_creds base_deployment) [])))) \<and>
   isSafeInteger (num_or (minInstances (deploymentConfig
     (cloud (example_cicd (cloud_of ''digitalocean'' do_creds base_deployment) [])))) 1) \<and>
   ''app'' \<notin> set (map getServiceName (filter requiresInfrastructure (externalServices (project
      (example_cicd (cloud_of ''digitalocean'' do_creds base_deployment) []))))) \<and>
   isSafeInteger 8080 \<and>
   plain_config (with_values (cloud_of ''digitalocean'' do_creds base_deployment) 8080 ''/ready'')
     ''shop'' \<and>
   (\<exists>s t. generateDeploymentScript (cloud_of ''digitalocean'' do_creds base_deployment) ''app''
            = Inr s \<and>
          generateDeploymentScript
            (with_values (cloud_of ''digitalocean'' do_creds base_deployment) 8080 ''/ready'')
            ''shop'' = Inr t \<and>
          set [''    name: app'', ''        - name: app'', ''          http_port: 3000'',
               ''            http_path: /health'']
            \<subseteq> set (lines_of s) \<and>
          differ_only_at
            [''    name: app'', ''        - name: app'', ''          http_port: 3000'',
             ''            http_path: /health'']
            [''    name: shop'', ''        - name: shop'', ''          http_port: 8080'',
             ''            http_path: /ready'']
            (lines_of s) (lines_of t)) \<and>
   set [''    name   = "app"'', ''      name               = "app"'', ''      http_port = 3000'',
        ''        http_path = "/health"'']
     \<subseteq> set (lines_of
          (generateTerraformConfig (cloud_of ''digitalocean'' do_creds base_deployment) ''app'')) \<and>
   sublist (''    ports:'' @ [nl] @ ''      - "3000:3000"'' @ [nl])
     (generateDockerCompose
        (example_cicd (cloud_of ''digitalocean'' do_creds base_deployment) [])) \<and>
   (\<exists>rest d. compose_services
        (example_cicd (cloud_of ''digitalocean'' do_creds base_deployment) []) =
      (''app'',
       YObj [(''build'', YStr ''.''), (''ports'', YArr [''3000:3000'']),
             (''env_file'', YArr [''.env'']), (''depends_on'', YArr d)]) # rest)\<close>
proof -
  let ?c = "cloud_of ''digitalocean'' do_creds base_deployment"
  let ?k = "example_cicd ?c []"
  have c: "cloud ?k = ?c"
    by (simp add: example_cicd_def)
  have p: "provider ?c = ''digitalocean''"
    by (simp add: cloud_of_def)
  have v: "healthCheckPath (deploymentConfig ?c) = ''/health''" "port (deploymentConfig ?c) = 3000"
    "num_or (minInstances (deploymentConfig ?c)) 1 = 1"
    by (simp_all add: cloud_of_def base_deployment_def num_or_def)
  have h1: "provider (cloud ?k) \<in> {''aws'', ''azure'', ''gcp'', ''digitalocean''}"
    unfolding c p by simp
  have h2: "plain_config (cloud ?k) ''app''"
    unfolding c by (simp add: plain_cloud_of do_creds_def js_str_def)
  have h3: "isSafeInteger (port (deploymentConfig (cloud ?k)))"
    and h4: "isSafeInteger (num_or (minInstances (deploymentConfig (cloud ?k))) 1)"
    unfolding c v by (simp_all add: isSafeInteger_def)
  have h5: "''app'' \<notin> set (map getServiceName
      (filter requiresInfrastructure (externalServices (project ?k))))"
    by (simp add: example_cicd_def)
  have h6: "isSafeInteger 8080"
    by (simp add: isSafeInteger_def)
  have h7: "plain_config (with_values ?c 8080 ''/ready'') ''shop''"
    using h2[unfolded c] by (simp add: plain_config_def)
  have n: "show_num 8080 = ''8080''"
    by (simp add: show_num_def digits.simps)
  have sv: \<open>script_value_lines ?c ''app'' =
      [''    name: app'', ''        - name: app'', ''          http_port: 3000'',
       ''            http_path: /health'']\<close>
    and sv': \<open>script_value_lines (with_values ?c 8080 ''/ready'') ''shop'' =
      [''    name: shop'', ''        - name: shop'', ''          http_port: 8080'',
       ''            http_path: /ready'']\<close>
    and mv: \<open>manifest_value_lines ?c ''app'' =
      [''    name   = "app"'', ''      name               = "app"'', ''      http_port = 3000'',
       ''        http_path = "/health"'']\<close>
    unfolding script_value_lines_def manifest_value_lines_def with_values_fields p v
    by (simp_all add: show_num_values n)
  have e: "externalServices (project ?k) = externalServices (project ?k) \<and>
      isSafeInteger (port (deploymentConfig (cloud ?k)))"
    using h3 by simp
  from C4_configured_values[OF h1 h2 h3 h4 h5] obtain s rest d where
    s: "generateDeploymentScript (cloud ?k) ''app'' = Inr s" and
    a: "set (script_value_lines (cloud ?k) ''app'') \<subseteq> set (lines_of s)"
       "set (manifest_value_lines (cloud ?k) ''app'')
          \<subseteq> set (lines_of (generateTerraformConfig (cloud ?k) ''app''))"
       "sublist (compose_port_text ?k) (generateDockerCompose ?k)" and
    b: "\<forall>p h m. isSafeInteger p \<and> plain_config (with_values (cloud ?k) p h) m \<longrightarrow>
       (\<exists>t. generateDeploymentScript (with_values (cloud ?k) p h) m = Inr t \<and>
            differ_only_at (script_value_lines (cloud ?k) ''app'')
              (script_value_lines (with_values (cloud ?k) p h) m)
              (lines_of s) (lines_of t)) \<and>
       differ_only_at (manifest_value_lines (cloud ?k) ''app'')
         (manifest_value_lines (with_values (cloud ?k) p h) m)
         (lines_of (generateTerraformConfig (cloud ?k) ''app''))
         (lines_of (generateTerraformConfig (with_values (cloud ?k) p h) m))" and
    r: "\<forall>config'.
       externalServices (project config') = externalServices (project ?k) \<and>
       isSafeInteger (port (deploymentConfig (cloud config'))) \<longrightarrow>
         compose_services config' =
           (''app'',
            YObj [(''build'', YStr ''.''),
                  (''ports'', YArr [show_num (port (deploymentConfig (cloud config'))) @ '':'' @
                                    show_num (port (deploymentConfig (cloud config')))]),
                  (''env_file'', YArr [''.env'']),
                  (''depends_on'', YArr d)]) # rest"
    by blast
  from b h6 h7 obtain t where
    t: "generateDeploymentScript (with_values ?c 8080 ''/ready'') ''shop'' = Inr t"
       "differ_only_at (script_value_lines ?c ''app'')
          (script_value_lines (with_values ?c 8080 ''/ready'') ''shop'')
          (lines_of s) (lines_of t)"
    unfolding c by blast
  have x: \<open>\<exists>s t. generateDeploymentScript ?c ''app'' = Inr s \<and>
          generateDeploymentScript (with_values ?c 8080 ''/ready'') ''shop'' = Inr t \<and>
          set [''    name: app'', ''        - name: app'', ''          http_port: 3000'',
               ''            http_path: /health'']
            \<subseteq> set (lines_of s) \<and>
          differ_only_at
            [''    name: app'', ''        - name: app'', ''          http_port: 3000'',
             ''            http_path: /health'']
            [''    name: shop'', ''        - name: shop'', ''          http_port: 8080'',
             ''            http_path: /ready'']
            (lines_of s) (lines_of t)\<close>
    using s a(1) t unfolding c sv sv' by blast
  have y: \<open>set [''    name   = "app"'', ''      name               = "app"'',
        ''      http_port = 3000'', ''        http_path = "/health"'']
     \<subseteq> set (lines_of (generateTerraformConfig ?c ''app''))\<close>
    using a(2) unfolding c mv .
  have z: \<open>sublist (''    ports:'' @ [nl] @ ''      - "3000:3000"'' @ [nl])
     (generateDockerCompose ?k)\<close>
    using a(3) unfolding compose_port_text_def c v by (simp add: show_num_values)
  have w: \<open>\<exists>rest d. compose_services ?k =
      (''app'',
       YObj [(''build'', YStr ''.''), (''ports'', YArr [''3000:3000'']),
             (''env_file'', YArr [''.env'']), (''depends_on'', YArr d)]) # rest\<close>
    using r[rule_format, OF e] unfolding c v by (simp add: show_num_values)
  from h1 h2 h3 h4 h5 h6 h7 x y z w show ?thesis
    by blast
qed


end
